theory Spec2Isabelle
  imports Complex_Main "HOL-Library.Sublist"
begin

section \<open>Strings and characters\<close>

text \<open>
  A JavaScript string is a sequence of UTF-16 code units. It is modelled as a \<open>string\<close>,
  one \<open>char\<close> per code unit, which covers the strings whose code units are all below 256
  (ASCII and Latin-1). On that range the regular-expression class \<^verbatim>\<open>\s\<close> and the characters
  removed by \<^verbatim>\<open>trim()\<close> are TAB, LF, VT, FF, CR, SPACE and NBSP; \<^verbatim>\<open>\w\<close> is
  \<^verbatim>\<open>[A-Za-z0-9_]\<close>; \<^verbatim>\<open>toLowerCase()\<close> adds 32 to \<open>A\<close>..\<open>Z\<close> and to the
  capital letters U+00C0..U+00DE other than the multiplication sign U+00D7.
\<close>

definition is_space :: "char \<Rightarrow> bool" where
  "is_space c =
     (c \<in> set [CHR 0x09, CHR 0x0A, CHR 0x0B, CHR 0x0C, CHR 0x0D, CHR 0x20, CHR 0xA0])"

definition is_word :: "char \<Rightarrow> bool" where
  "is_word c =
     (let n = (of_char c :: nat)
      in (48 \<le> n \<and> n \<le> 57) \<or> (65 \<le> n \<and> n \<le> 90) \<or> n = 95 \<or> (97 \<le> n \<and> n \<le> 122))"

definition lower_char :: "char \<Rightarrow> char" where
  "lower_char c =
     (let n = (of_char c :: nat)
      in if (65 \<le> n \<and> n \<le> 90) \<or> (192 \<le> n \<and> n \<le> 222 \<and> n \<noteq> 215)
         then char_of (n + 32) else c)"

definition toLowerCase :: "string \<Rightarrow> string" where
  "toLowerCase s = map lower_char s"

text \<open>\<^verbatim>\<open>s.includes(t)\<close>: \<open>t\<close> occurs in \<open>s\<close> at some position.\<close>

fun includes_str :: "string \<Rightarrow> string \<Rightarrow> bool" where
  "includes_str [] t = (t = [])"
| "includes_str (c # cs) t = (prefix t (c # cs) \<or> includes_str cs t)"

text \<open>\<^verbatim>\<open>parts.join(sep)\<close>\<close>

fun join :: "string \<Rightarrow> string list \<Rightarrow> string" where
  "join sep [] = []"
| "join sep [x] = x"
| "join sep (x # y # ys) = x @ sep @ join sep (y # ys)"

section \<open>Query sanitization\<close>

text \<open>
  \<^verbatim>\<open>query.replace(/\/\*[\s\S]*?\*\//g, '')\<close>. A match starts at a \<^verbatim>\<open>/*\<close> and, the
  quantifier being lazy, ends with the first \<^verbatim>\<open>*/\<close> that starts after it;
  \<open>find_close\<close> returns the text behind that first \<^verbatim>\<open>*/\<close>. Where there is no match the
  character is kept and the scan goes on at the next one. The scan is a single pass over the
  input: text that the removals bring together is not looked at again.
\<close>

fun find_close :: "string \<Rightarrow> string option" where
  "find_close [] = None"
| "find_close [c] = None"
| "find_close (c # d # cs) =
     (if c = CHR ''*'' \<and> d = CHR ''/'' then Some cs else find_close (d # cs))"

definition block_comment_at :: "string \<Rightarrow> string option" where
  "block_comment_at s =
     (case s of
        c # d # cs \<Rightarrow> if c = CHR ''/'' \<and> d = CHR ''*'' then find_close cs else None
      | _ \<Rightarrow> None)"

lemma find_close_length: "find_close s = Some r \<Longrightarrow> length r < length s"
  by (induction s arbitrary: r rule: find_close.induct) (auto split: if_splits)

lemma block_comment_at_length: "block_comment_at s = Some r \<Longrightarrow> length r < length s"
  by (auto simp: block_comment_at_def split: list.splits if_splits dest: find_close_length)

function strip_block_comments :: "string \<Rightarrow> string" where
  "strip_block_comments [] = []"
| "strip_block_comments (c # cs) =
     (case block_comment_at (c # cs) of
        Some rest \<Rightarrow> strip_block_comments rest
      | None \<Rightarrow> c # strip_block_comments cs)"
  by pat_completeness auto
termination
  by (relation "measure length") (auto dest: block_comment_at_length)

text \<open>\<^verbatim>\<open>.replace(/#[^\r\n]*/g, '')\<close>: from a \<^verbatim>\<open>#\<close> up to, not including, the next CR or LF.\<close>

definition is_eol :: "char \<Rightarrow> bool" where
  "is_eol c = (c = CHR 0x0D \<or> c = CHR 0x0A)"

function strip_line_comments :: "string \<Rightarrow> string" where
  "strip_line_comments [] = []"
| "strip_line_comments (c # cs) =
     (if c = CHR ''#'' then strip_line_comments (dropWhile (\<lambda>x. \<not> is_eol x) cs)
      else c # strip_line_comments cs)"
  by pat_completeness auto
termination
  by (relation "measure length") (auto simp: less_Suc_eq_le length_dropWhile_le)

text \<open>\<^verbatim>\<open>.replace(/\s+/g, ' ')\<close>: every maximal run of white space becomes one space.\<close>

function collapse_whitespace :: "string \<Rightarrow> string" where
  "collapse_whitespace [] = []"
| "collapse_whitespace (c # cs) =
     (if is_space c then CHR '' '' # collapse_whitespace (dropWhile is_space cs)
      else c # collapse_whitespace cs)"
  by pat_completeness auto
termination
  by (relation "measure length") (auto simp: less_Suc_eq_le length_dropWhile_le)

text \<open>\<^verbatim>\<open>.trim()\<close>\<close>

definition trim :: "string \<Rightarrow> string" where
  "trim s = rev (dropWhile is_space (rev (dropWhile is_space s)))"

definition sanitizeQuery :: "string \<Rightarrow> string" where
  "sanitizeQuery query =
     trim (collapse_whitespace (strip_line_comments (strip_block_comments query)))"

section \<open>Complexity and depth scores\<close>

text \<open>
  \<^verbatim>\<open>query.match(/\w+(?=\s*[{(])/g)\<close>. The lookahead \<^verbatim>\<open>(?=\s*[{(])\<close> holds at a position
  when the text there is white space followed by \<^verbatim>\<open>{\<close> or \<^verbatim>\<open>(\<close>. At a start position the
  greedy \<^verbatim>\<open>\w+\<close> first takes the whole run of word characters and gives them back one by
  one while the lookahead fails (\<open>backtrack\<close>), keeping at least one. After a match the scan
  goes on behind it, otherwise at the next character. The score is the number of matches.
\<close>

definition lookahead :: "string \<Rightarrow> bool" where
  "lookahead s =
     (case dropWhile is_space s of [] \<Rightarrow> False | c # _ \<Rightarrow> c = CHR ''{'' \<or> c = CHR ''('')"

fun backtrack :: "string \<Rightarrow> nat \<Rightarrow> nat option" where
  "backtrack s 0 = None"
| "backtrack s (Suc n) = (if lookahead (drop (Suc n) s) then Some (Suc n) else backtrack s n)"

definition match_word_at :: "string \<Rightarrow> nat option" where
  "match_word_at s = backtrack s (length (takeWhile is_word s))"

lemma backtrack_pos: "backtrack s n = Some k \<Longrightarrow> 0 < k \<and> k \<le> n"
  by (induction n) (auto split: if_splits)

lemma match_word_at_pos: "match_word_at s = Some k \<Longrightarrow> 0 < k"
  by (auto simp: match_word_at_def dest: backtrack_pos)

function count_matches :: "string \<Rightarrow> nat" where
  "count_matches [] = 0"
| "count_matches (c # cs) =
     (case match_word_at (c # cs) of
        Some n \<Rightarrow> Suc (count_matches (drop n (c # cs)))
      | None \<Rightarrow> count_matches cs)"
  by pat_completeness auto
termination
  by (relation "measure length") (auto dest: match_word_at_pos)

definition calculateQueryComplexity :: "string \<Rightarrow> nat" where
  "calculateQueryComplexity query = count_matches query"

text \<open>
  The words of the specification, for comparison: the number of word tokens (maximal runs
  of word characters) that are followed, up to white space, by \<^verbatim>\<open>{\<close> or \<^verbatim>\<open>(\<close>.
\<close>

function word_tokens_before_bracket :: "string \<Rightarrow> nat" where
  "word_tokens_before_bracket [] = 0"
| "word_tokens_before_bracket (c # cs) =
     (if is_word c
      then (if lookahead (dropWhile is_word cs) then 1 else 0)
           + word_tokens_before_bracket (dropWhile is_word cs)
      else word_tokens_before_bracket cs)"
  by pat_completeness auto
termination
  by (relation "measure length") (auto simp: less_Suc_eq_le length_dropWhile_le)

text \<open>
  \<open>calculateQueryDepth\<close>: the loop over the characters with its two variables, the current
  depth \<open>d\<close> and the maximum \<open>m\<close> seen so far.
\<close>

fun depth_loop :: "string \<Rightarrow> int \<Rightarrow> int \<Rightarrow> int" where
  "depth_loop [] d m = m"
| "depth_loop (c # cs) d m =
     (if c = CHR ''{'' then depth_loop cs (d + 1) (max m (d + 1))
      else if c = CHR ''}'' then depth_loop cs (d - 1) m
      else depth_loop cs d m)"

definition calculateQueryDepth :: "string \<Rightarrow> int" where
  "calculateQueryDepth query = depth_loop query 0 0"

text \<open>
  The words of the specification, for comparison: a counter that goes up on each \<^verbatim>\<open>{\<close> and
  down on each \<^verbatim>\<open>}\<close>, and the maximum of its values along the scan (it starts at 0).
\<close>

definition brace_counter :: "string \<Rightarrow> int" where
  "brace_counter p = int (count_list p (CHR ''{'')) - int (count_list p (CHR ''}''))"

definition running_maximum :: "string \<Rightarrow> int" where
  "running_maximum q = Max ((\<lambda>k. brace_counter (take k q)) ` {0..length q})"

section \<open>Configuration\<close>

text \<open>
  Numbers are \<open>real\<close>: \<^verbatim>\<open>z.number()\<close> accepts fractions. Objects used as dictionaries are
  association lists in key order. \<open>partial_config\<close> is
  \<^verbatim>\<open>Partial<z.infer<typeof ConfigureArgsSchema>>\<close>, the type of the environment
  configuration, and also the shape of the raw arguments of a configure call (a key is
  present or absent; values of the wrong JSON type are left out of the model).
\<close>

type_synonym headers = "(string \<times> string) list"

record partial_config =
  p_endpoint :: "string option"
  p_headers :: "headers option"
  p_timeout :: "real option"
  p_maxDepth :: "real option"
  p_maxComplexity :: "real option"
  p_disabledResolvers :: "string list option"

text \<open>
  \<^verbatim>\<open>z.infer<typeof ConfigureArgsSchema>\<close>, the result of \<^verbatim>\<open>ConfigureArgsSchema.parse\<close>:
  \<^verbatim>\<open>endpoint\<close> and \<^verbatim>\<open>headers\<close> are optional, the four fields declared with
  \<^verbatim>\<open>.default(...)\<close> are always present.
\<close>

record parsed_args =
  a_endpoint :: "string option"
  a_headers :: "headers option"
  a_timeout :: real
  a_maxDepth :: real
  a_maxComplexity :: real
  a_disabledResolvers :: "string list"

text \<open>The merged configuration object that \<open>handleConfigureGraphQL\<close> builds and stores.\<close>

record config =
  cfg_endpoint :: "string option"
  cfg_headers :: headers
  timeout :: real
  maxDepth :: real
  maxComplexity :: real
  disabledResolvers :: "string list"

text \<open>
  Objects as association lists of their own properties. \<open>obj_set\<close> defines the own
  property \<open>k\<close> (in place when there is one, at the end otherwise); the object spread
  \<^verbatim>\<open>{...a, ...b}\<close> defines the properties of \<open>b\<close> one after the other on a copy of \<open>a\<close>.
\<close>

fun obj_set :: "(string \<times> 'v) list \<Rightarrow> string \<Rightarrow> 'v \<Rightarrow> (string \<times> 'v) list" where
  "obj_set [] k v = [(k, v)]"
| "obj_set ((k', v') # kvs) k v =
     (if k' = k then (k, v) # kvs else (k', v') # obj_set kvs k v)"

definition spread :: "(string \<times> 'v) list \<Rightarrow> (string \<times> 'v) list \<Rightarrow> (string \<times> 'v) list" where
  "spread a b = foldl (\<lambda>acc (k, v). obj_set acc k v) a b"

text \<open>
  The assignment \<^verbatim>\<open>obj[k] = v\<close> on a plain object. For every key but \<open>__proto__\<close> it
  defines the own property. For the key \<open>__proto__\<close> it runs the setter inherited from
  \<^verbatim>\<open>Object.prototype\<close>, which stores no own property (it changes the prototype when \<open>v\<close>
  is an object or null and does nothing otherwise).
\<close>

definition obj_assign :: "(string \<times> 'v) list \<Rightarrow> string \<Rightarrow> 'v \<Rightarrow> (string \<times> 'v) list" where
  "obj_assign kvs k v = (if k = ''__proto__'' then kvs else obj_set kvs k v)"

definition or_empty :: "headers option \<Rightarrow> headers" where
  "or_empty h = (case h of None \<Rightarrow> [] | Some kvs \<Rightarrow> kvs)"

text \<open>
  \<open>ConfigureArgsSchema.parse\<close>; \<open>None\<close> is the thrown \<^verbatim>\<open>ZodError\<close>. The URL test of
  \<^verbatim>\<open>z.string().url()\<close> belongs to the zod library and is the parameter \<open>is_url\<close>.
\<close>

definition in_range :: "real \<Rightarrow> real \<Rightarrow> real option \<Rightarrow> bool" where
  "in_range lo hi x = (case x of None \<Rightarrow> True | Some v \<Rightarrow> lo \<le> v \<and> v \<le> hi)"

definition or_default :: "'a \<Rightarrow> 'a option \<Rightarrow> 'a" where
  "or_default d x = (case x of None \<Rightarrow> d | Some v \<Rightarrow> v)"

definition ConfigureArgsSchema_parse :: "(string \<Rightarrow> bool) \<Rightarrow> partial_config \<Rightarrow> parsed_args option" where
  "ConfigureArgsSchema_parse is_url a =
     (if (case p_endpoint a of None \<Rightarrow> True | Some e \<Rightarrow> is_url e)
         \<and> in_range 1000 60000 (p_timeout a)
         \<and> in_range 1 20 (p_maxDepth a)
         \<and> in_range 1 1000 (p_maxComplexity a)
      then Some \<lparr>a_endpoint = p_endpoint a,
                 a_headers = p_headers a,
                 a_timeout = or_default 30000 (p_timeout a),
                 a_maxDepth = or_default 10 (p_maxDepth a),
                 a_maxComplexity = or_default 100 (p_maxComplexity a),
                 a_disabledResolvers = or_default [] (p_disabledResolvers a)\<rparr>
      else None)"

subsection \<open>The environment\<close>

record process_env =
  GRAPHQL_ENDPOINT :: "string option"
  GRAPHQL_TIMEOUT :: "string option"
  GRAPHQL_MAX_DEPTH :: "string option"
  GRAPHQL_MAX_COMPLEXITY :: "string option"
  GRAPHQL_DISABLED_RESOLVERS :: "string option"
  GRAPHQL_HEADERS :: "string option"
  GRAPHQL_AUTH_TOKEN :: "string option"
  GRAPHQL_API_KEY :: "string option"

text \<open>\<^verbatim>\<open>if (process.env.X)\<close>: the variable is set and not the empty string.\<close>

definition truthy :: "string option \<Rightarrow> string option" where
  "truthy x = (case x of None \<Rightarrow> None | Some v \<Rightarrow> if v = [] then None else Some v)"

text \<open>
  \<^verbatim>\<open>parseInt(s, 10)\<close>: leading white space, an optional sign, then the longest run of
  decimal digits; \<open>None\<close> is \<^verbatim>\<open>NaN\<close>. The value is the exact integer (the rounding of
  integers beyond 2^53 to a double is left out).
\<close>

definition is_digit :: "char \<Rightarrow> bool" where
  "is_digit c = (let n = (of_char c :: nat) in 48 \<le> n \<and> n \<le> 57)"

definition digits_value :: "string \<Rightarrow> nat" where
  "digits_value ds = foldl (\<lambda>acc c. 10 * acc + (of_char c - 48)) 0 ds"

definition parseInt :: "string \<Rightarrow> int option" where
  "parseInt s =
     (let t = dropWhile is_space s;
          neg = (case t of [] \<Rightarrow> False | c # _ \<Rightarrow> c = CHR ''-'');
          u = (case t of [] \<Rightarrow> [] | c # r \<Rightarrow> if c = CHR ''-'' \<or> c = CHR ''+'' then r else t);
          ds = takeWhile is_digit u
      in if ds = [] then None
         else Some (if neg then - int (digits_value ds) else int (digits_value ds)))"

definition env_number :: "string option \<Rightarrow> real option" where
  "env_number x =
     (case truthy x of None \<Rightarrow> None
      | Some v \<Rightarrow> (case parseInt v of None \<Rightarrow> None | Some n \<Rightarrow> Some (of_int n)))"

text \<open>\<^verbatim>\<open>s.split(',')\<close>\<close>

fun split_on :: "char \<Rightarrow> string \<Rightarrow> string list" where
  "split_on sep [] = [[]]"
| "split_on sep (c # cs) =
     (if c = sep then [] # split_on sep cs
      else (case split_on sep cs of [] \<Rightarrow> [[c]] | x # xs \<Rightarrow> (c # x) # xs))"

text \<open>
  What \<^verbatim>\<open>JSON.parse(process.env.GRAPHQL_HEADERS)\<close> returns, as far as the program tells
  values apart: a falsy value (\<^verbatim>\<open>null\<close>, \<^verbatim>\<open>false\<close>, \<^verbatim>\<open>0\<close>, the empty string); a truthy
  primitive (another number, \<^verbatim>\<open>true\<close>, a nonempty string), with the properties an object
  spread copies from it (the characters of a string under their indices, none otherwise);
  or an object or array, with its own properties. Property values are strings in the model
  (the declared type of the headers).
\<close>

datatype parsed_headers = Falsy | Primitive headers | Object headers

text \<open>
  \<^verbatim>\<open>config.headers = config.headers || {}; config.headers[k] = v\<close> in a module, that is
  in strict mode: on a truthy primitive the assignment throws a \<^verbatim>\<open>TypeError\<close>, which is
  \<open>None\<close> here. The argument is \<open>None\<close> when \<^verbatim>\<open>config.headers\<close> is not set.
\<close>

definition set_header :: "parsed_headers option \<Rightarrow> string \<Rightarrow> string \<Rightarrow> parsed_headers option" where
  "set_header h k v =
     (case h of
        None \<Rightarrow> Some (Object (obj_assign [] k v))
      | Some Falsy \<Rightarrow> Some (Object (obj_assign [] k v))
      | Some (Primitive _) \<Rightarrow> None
      | Some (Object kvs) \<Rightarrow> Some (Object (obj_assign kvs k v)))"

text \<open>What an object spread copies from \<^verbatim>\<open>envConfig.headers\<close>.\<close>

definition spread_view :: "parsed_headers option \<Rightarrow> headers option" where
  "spread_view h =
     (case h of
        None \<Rightarrow> None
      | Some Falsy \<Rightarrow> None
      | Some (Primitive kvs) \<Rightarrow> Some kvs
      | Some (Object kvs) \<Rightarrow> Some kvs)"

text \<open>
  \<open>loadEnvironmentConfig\<close>; \<open>None\<close> is the \<^verbatim>\<open>TypeError\<close> it throws when
  \<^verbatim>\<open>GRAPHQL_HEADERS\<close> parses to a truthy primitive and a token or an API key is set.
  \<^verbatim>\<open>JSON.parse\<close> is the parameter \<open>JSON_parse\<close>: \<open>None\<close> when it throws, which is caught,
  logged and leaves the headers unset. The \<open>p_headers\<close> of the result are what the merge
  will copy from \<^verbatim>\<open>envConfig.headers\<close>.
\<close>

definition loadEnvironmentConfig ::
  "(string \<Rightarrow> parsed_headers option) \<Rightarrow> process_env \<Rightarrow> partial_config option" where
  "loadEnvironmentConfig JSON_parse env =
     (let h0 = (case truthy (GRAPHQL_HEADERS env) of None \<Rightarrow> None | Some v \<Rightarrow> JSON_parse v);
          h1 = (case truthy (GRAPHQL_AUTH_TOKEN env) of None \<Rightarrow> Some h0
                | Some tok \<Rightarrow>
                    (case set_header h0 ''Authorization'' (''Bearer '' @ tok) of
                       None \<Rightarrow> None | Some h \<Rightarrow> Some (Some h)));
          h2 = (case h1 of
                  None \<Rightarrow> None
                | Some h \<Rightarrow>
                    (case truthy (GRAPHQL_API_KEY env) of None \<Rightarrow> Some h
                     | Some key \<Rightarrow>
                         (case set_header h ''X-API-Key'' key of
                            None \<Rightarrow> None | Some h' \<Rightarrow> Some (Some h'))))
      in case h2 of
           None \<Rightarrow> None
         | Some h \<Rightarrow>
             Some \<lparr>p_endpoint = truthy (GRAPHQL_ENDPOINT env),
                   p_headers = spread_view h,
                   p_timeout = env_number (GRAPHQL_TIMEOUT env),
                   p_maxDepth = env_number (GRAPHQL_MAX_DEPTH env),
                   p_maxComplexity = env_number (GRAPHQL_MAX_COMPLEXITY env),
                   p_disabledResolvers =
                     (case truthy (GRAPHQL_DISABLED_RESOLVERS env) of None \<Rightarrow> None
                      | Some v \<Rightarrow> Some (map trim (split_on (CHR '','') v)))\<rparr>)"

text \<open>
  The merge in \<open>handleConfigureGraphQL\<close>:
  \<^verbatim>\<open>{...envConfig, ...parsedArgs, headers: {...envConfig.headers, ...parsedArgs.headers}}\<close>.
  A key of \<^verbatim>\<open>parsedArgs\<close> overrides the same key of \<^verbatim>\<open>envConfig\<close>. \<^verbatim>\<open>parsedArgs\<close> has
  the key \<^verbatim>\<open>endpoint\<close> only when the caller gave one, and always has \<^verbatim>\<open>timeout\<close>,
  \<^verbatim>\<open>maxDepth\<close>, \<^verbatim>\<open>maxComplexity\<close> and \<^verbatim>\<open>disabledResolvers\<close>.
\<close>

definition merge_config :: "partial_config \<Rightarrow> parsed_args \<Rightarrow> config" where
  "merge_config envConfig parsedArgs =
     \<lparr>cfg_endpoint = (case a_endpoint parsedArgs of Some e \<Rightarrow> Some e | None \<Rightarrow> p_endpoint envConfig),
      cfg_headers = spread (spread [] (or_empty (p_headers envConfig))) (or_empty (a_headers parsedArgs)),
      timeout = a_timeout parsedArgs,
      maxDepth = a_maxDepth parsedArgs,
      maxComplexity = a_maxComplexity parsedArgs,
      disabledResolvers = a_disabledResolvers parsedArgs\<rparr>"

section \<open>Errors\<close>

text \<open>
  An \<^verbatim>\<open>McpError\<close> has a code and a message; the message is kept with its parts (the
  numbers and names the source interpolates into the text; \<open>ToolExecutionFailed\<close> stands
  for \<open>Tool execution failed:\<close> followed by the message of the wrapped error).
  \<open>ZodError\<close> is the error of \<open>ConfigureArgsSchema.parse\<close>, \<open>TypeError\<close> the one of
  \<open>loadEnvironmentConfig\<close>. What a failed network request throws is a \<open>thrown\<close>.
\<close>

datatype error_code = InvalidParams | InvalidRequest | MethodNotFound | InternalError

datatype message =
    EndpointRequired
  | ConnectFailed string
  | ComplexityExceeded nat real
  | DepthExceeded int real
  | ResolverDisabled string
  | NotConfigured string
  | UnknownTool string "string list"
  | ToolExecutionFailed

datatype error = McpError error_code message | ZodError | TypeError

datatype thrown = ErrorObject string | OtherValue

text \<open>\<^verbatim>\<open>error instanceof Error ? error.message : 'Unknown error'\<close>\<close>

definition error_message :: "thrown \<Rightarrow> string" where
  "error_message e = (case e of ErrorObject m \<Rightarrow> m | OtherValue \<Rightarrow> ''Unknown error'')"

section \<open>Query validation\<close>

definition validateQueryConstraints :: "string \<Rightarrow> config \<Rightarrow> error + unit" where
  "validateQueryConstraints query cfg =
     (let sanitized = sanitizeQuery query;
          complexity = calculateQueryComplexity sanitized
      in if real complexity > maxComplexity cfg
         then Inl (McpError InvalidParams (ComplexityExceeded complexity (maxComplexity cfg)))
         else
           let depth = calculateQueryDepth sanitized
           in if real_of_int depth > maxDepth cfg
              then Inl (McpError InvalidParams (DepthExceeded depth (maxDepth cfg)))
              else
                (case find (\<lambda>resolver. includes_str (toLowerCase sanitized) (toLowerCase resolver))
                           (disabledResolvers cfg) of
                   Some resolver \<Rightarrow> Inl (McpError InvalidParams (ResolverDisabled resolver))
                 | None \<Rightarrow> Inr ()))"

section \<open>The introspection schema\<close>

text \<open>
  A type reference of an introspection result: the wrappers \<^verbatim>\<open>NON_NULL\<close> and \<^verbatim>\<open>LIST\<close>
  with their \<^verbatim>\<open>ofType\<close>, or a named type with its \<^verbatim>\<open>kind\<close>, its \<^verbatim>\<open>name\<close> (possibly
  null) and its \<^verbatim>\<open>enumValues\<close> names (possibly absent).
\<close>

datatype kind = SCALAR | OBJECT | INTERFACE | UNION | ENUM | INPUT_OBJECT

datatype type_ref =
    NON_NULL type_ref
  | LIST type_ref
  | Named kind "string option" "string list option"

record arg =
  arg_name :: string
  arg_type :: type_ref
  arg_description :: "string option"

record gql_field =
  field_name :: string
  field_description :: "string option"
  field_args :: "arg list"
  field_type :: type_ref

record gql_type =
  gt_name :: string
  gt_kind :: kind
  gt_fields :: "gql_field list option"

text \<open>
  The \<^verbatim>\<open>__schema\<close> object: \<^verbatim>\<open>queryType\<close> and \<^verbatim>\<open>mutationType\<close> are null or carry the
  name of the root type.
\<close>

record schema =
  queryType :: "string option"
  mutationType :: "string option"
  types :: "gql_type list"

fun type_name :: "type_ref \<Rightarrow> string option" where
  "type_name (Named k n e) = n"
| "type_name _ = None"

text \<open>A name interpolated into a string: \<^verbatim>\<open>null\<close> prints as \<open>null\<close>.\<close>

definition show_name :: "string option \<Rightarrow> string" where
  "show_name n = (case n of None \<Rightarrow> ''null'' | Some v \<Rightarrow> v)"

text \<open>\<^verbatim>\<open>x || d\<close> on a string that may be null: \<open>d\<close> when \<open>x\<close> is null or empty.\<close>

definition or_else :: "string option \<Rightarrow> string \<Rightarrow> string" where
  "or_else x d = (case x of None \<Rightarrow> d | Some v \<Rightarrow> if v = [] then d else v)"

fun getLeafType :: "type_ref \<Rightarrow> type_ref" where
  "getLeafType (NON_NULL t) = getLeafType t"
| "getLeafType (LIST t) = getLeafType t"
| "getLeafType t = t"

fun getGraphQLTypeString :: "type_ref \<Rightarrow> string" where
  "getGraphQLTypeString (NON_NULL t) = getGraphQLTypeString t @ ''!''"
| "getGraphQLTypeString (LIST t) = ''['' @ getGraphQLTypeString t @ '']''"
| "getGraphQLTypeString (Named k n e) = show_name n"

datatype json_schema =
  JsonSchema (js_type: string) (js_items: "json_schema option")
             (js_enum: "string list option") (js_description: "string option")

fun convertGraphQLTypeToJsonSchema :: "type_ref \<Rightarrow> json_schema" where
  "convertGraphQLTypeToJsonSchema (NON_NULL t) = convertGraphQLTypeToJsonSchema t"
| "convertGraphQLTypeToJsonSchema (LIST t) =
     JsonSchema ''array'' (Some (convertGraphQLTypeToJsonSchema t)) None None"
| "convertGraphQLTypeToJsonSchema (Named k n e) =
     (if k = SCALAR then
        (if n = Some ''String'' then JsonSchema ''string'' None None None
         else if n = Some ''Int'' then JsonSchema ''integer'' None None None
         else if n = Some ''Float'' then JsonSchema ''number'' None None None
         else if n = Some ''Boolean'' then JsonSchema ''boolean'' None None None
         else if n = Some ''ID'' then JsonSchema ''string'' None None None
         else JsonSchema ''string'' None None None)
      else if k = ENUM then
        JsonSchema ''string'' None (Some (case e of None \<Rightarrow> [] | Some vs \<Rightarrow> vs)) None
      else JsonSchema ''string'' None None (Some (show_name n @ '' object'')))"

section \<open>Dynamic tools\<close>

datatype op_type = Query | Mutation

record resolver =
  r_type :: op_type
  fieldName :: string
  returnType :: string
  args :: "arg list"

text \<open>
  The \<^verbatim>\<open>inputSchema\<close> of a tool; its \<^verbatim>\<open>type: 'object'\<close> and
  \<^verbatim>\<open>additionalProperties: false\<close> are the same for every tool.
\<close>

record input_schema =
  properties :: "(string \<times> json_schema) list"
  required :: "string list"

record tool =
  name :: string
  description :: string
  inputSchema :: input_schema
  resolver :: resolver

text \<open>
  The inner loop of \<open>createMCPToolsFromSchema\<close> over \<^verbatim>\<open>field.args\<close>, with the two objects
  it fills.
\<close>

fun arg_loop :: "arg list \<Rightarrow> (string \<times> json_schema) list \<Rightarrow> string list
                 \<Rightarrow> (string \<times> json_schema) list \<times> string list" where
  "arg_loop [] props req = (props, req)"
| "arg_loop (a # rest) props req =
     (let sch = convertGraphQLTypeToJsonSchema (arg_type a);
          req' = (case arg_type a of NON_NULL _ \<Rightarrow> req @ [arg_name a] | _ \<Rightarrow> req);
          sch' = (case arg_description a of
                    None \<Rightarrow> sch
                  | Some d \<Rightarrow> if d = [] then sch
                              else JsonSchema (js_type sch) (js_items sch) (js_enum sch) (Some d))
      in arg_loop rest (obj_assign props (arg_name a) sch') req')"

text \<open>
  The object pushed for one field. The source writes it twice, once under the query type
  with \<open>query\<close> in the name, the description and the resolver, once under the mutation type
  with \<open>mutation\<close>; the two copies differ in nothing else.
\<close>

definition op_word :: "op_type \<Rightarrow> string" where
  "op_word t = (case t of Query \<Rightarrow> ''query'' | Mutation \<Rightarrow> ''mutation'')"

definition field_tool :: "op_type \<Rightarrow> gql_field \<Rightarrow> tool" where
  "field_tool t f =
     (let (props, req) = arg_loop (field_args f) [] []
      in \<lparr>name = op_word t @ ''_'' @ field_name f,
          description = or_else (field_description f)
                          (''Execute GraphQL '' @ op_word t @ '': '' @ field_name f),
          inputSchema = \<lparr>properties = props, required = req\<rparr>,
          resolver = \<lparr>r_type = t,
                      fieldName = field_name f,
                      returnType = or_else (type_name (getLeafType (field_type f))) ''Mixed'',
                      args = field_args f\<rparr>\<rparr>)"

text \<open>
  The loop over the fields of a root type: a field whose name is in the disabled list is
  skipped (\<^verbatim>\<open>continue\<close>), any other is pushed onto \<open>tools\<close>.
\<close>

fun field_loop :: "op_type \<Rightarrow> string list \<Rightarrow> gql_field list \<Rightarrow> tool list \<Rightarrow> tool list" where
  "field_loop t disabled [] tools = tools"
| "field_loop t disabled (f # fs) tools =
     (if field_name f \<in> set disabled then field_loop t disabled fs tools
      else field_loop t disabled fs (tools @ [field_tool t f]))"

text \<open>
  The fields of a root type: none when the schema names no such root, when no type of that
  name is in \<^verbatim>\<open>types\<close> (\<^verbatim>\<open>find\<close> takes the first), or when the type has no \<^verbatim>\<open>fields\<close>.
\<close>

definition root_fields :: "schema \<Rightarrow> string option \<Rightarrow> gql_field list" where
  "root_fields schemaData rootName =
     (case rootName of
        None \<Rightarrow> []
      | Some n \<Rightarrow>
          (case find (\<lambda>t. gt_name t = n) (types schemaData) of
             None \<Rightarrow> []
           | Some ty \<Rightarrow> (case gt_fields ty of None \<Rightarrow> [] | Some fs \<Rightarrow> fs)))"

text \<open>
  \<open>createMCPToolsFromSchema\<close> reads the disabled list from the stored configuration
  (\<^verbatim>\<open>state.config?.disabledResolvers\<close>): with no configuration nothing is skipped. The
  argument \<open>cfg\<close> is \<^verbatim>\<open>state.config\<close>, \<open>schemaData\<close> is \<^verbatim>\<open>schema.__schema\<close>.
\<close>

definition createMCPToolsFromSchema :: "config option \<Rightarrow> schema \<Rightarrow> tool list" where
  "createMCPToolsFromSchema cfg schemaData =
     (let disabled = (case cfg of None \<Rightarrow> [] | Some c \<Rightarrow> disabledResolvers c);
          tools = field_loop Query disabled (root_fields schemaData (queryType schemaData)) []
      in field_loop Mutation disabled (root_fields schemaData (mutationType schemaData)) tools)"

section \<open>Server state and the outside world\<close>

datatype json =
    JNull | JBool bool | JNumber real | JString string
  | JArray "json list" | JObject "(string \<times> json) list"

text \<open>\<^verbatim>\<open>new GraphQLClient(endpoint, { headers })\<close>\<close>

record graphql_client =
  c_endpoint :: string
  c_headers :: headers

text \<open>
  What a request returns: \<open>as_schema\<close> is its \<^verbatim>\<open>__schema\<close> member when it has one (an
  introspection result), \<open>rendered\<close> is the text \<^verbatim>\<open>JSON.stringify(result, null, 2)\<close>.
\<close>

record response =
  as_schema :: "schema option"
  rendered :: string

record server_state =
  client :: "graphql_client option"
  endpoint :: "string option"
  config :: "config option"
  cachedSchema :: "response option"
  schemaTimestamp :: int
  dynamicTools :: "tool list"

definition initial_state :: server_state where
  "initial_state =
     \<lparr>client = None, endpoint = None, config = None, cachedSchema = None,
      schemaTimestamp = 0, dynamicTools = []\<rparr>"

text \<open>
  Everything a handler reads from outside the program during one call: the process
  environment, the library functions \<^verbatim>\<open>JSON.parse\<close> and zod's URL test, the answer of the
  network to \<^verbatim>\<open>client.request(query, variables)\<close> (\<open>Inl\<close> when it throws), the text of
  \<^verbatim>\<open>getIntrospectionQuery()\<close> and the clock \<^verbatim>\<open>Date.now()\<close>. Handlers are run one at a
  time, each to its end.
\<close>

record world =
  env :: process_env
  JSON_parse :: "string \<Rightarrow> parsed_headers option"
  is_url :: "string \<Rightarrow> bool"
  request :: "graphql_client \<Rightarrow> string \<Rightarrow> (string \<times> json) list \<Rightarrow> thrown + response"
  introspectionQuery :: string
  now :: int

section \<open>Tool results\<close>

record settings =
  s_maxDepth :: real
  s_maxComplexity :: real
  s_disabledResolvers :: "string list"
  s_timeout :: real
  headersConfigured :: bool

record status =
  configured :: bool
  st_endpoint :: "string option"
  st_settings :: "settings option"
  schemaCache :: bool
  cacheAge :: "int option"
  cacheTTL :: int

text \<open>
  The \<^verbatim>\<open>content\<close> of a result is one text. The text of a resolver call is kept as the
  string it is; the status report and the configure summary are kept as the values the
  source prints into them (the status object; the endpoint, maximum depth, maximum
  complexity, disabled resolvers, timeout and number of dynamic tools).
\<close>

datatype content =
    Text string
  | StatusReport status
  | ConfigureSummary string real real "string list" real nat

record tool_result =
  content :: content
  isError :: bool

definition NL :: string where
  "NL = [CHR 0x0A]"

text \<open>
  The marks in front of the result texts lie outside the one-byte range; they are written
  with the bytes they have in the source file.
\<close>

definition ok_mark :: string where
  "ok_mark = [CHR 0xC3, CHR 0xA2, CHR 0xC5, CHR 0x93, CHR 0xE2, CHR 0x80, CHR 0xA6]"

definition fail_mark :: string where
  "fail_mark = [CHR 0xC3, CHR 0xA2, CHR 0xC5, CHR 0x92]"

section \<open>Status\<close>

definition SCHEMA_CACHE_TTL :: int where
  "SCHEMA_CACHE_TTL = 5 * 60 * 1000"

text \<open>The \<^verbatim>\<open>status\<close> object that \<open>handleGetStatus\<close> builds, and the result around it.\<close>

definition status_object :: "world \<Rightarrow> server_state \<Rightarrow> status" where
  "status_object w s =
     \<lparr>configured = (client s \<noteq> None),
      st_endpoint = endpoint s,
      st_settings =
        (case config s of
           None \<Rightarrow> None
         | Some c \<Rightarrow> Some \<lparr>s_maxDepth = maxDepth c,
                           s_maxComplexity = maxComplexity c,
                           s_disabledResolvers = disabledResolvers c,
                           s_timeout = timeout c,
                           headersConfigured = (cfg_headers c \<noteq> [])\<rparr>),
      schemaCache = (cachedSchema s \<noteq> None),
      cacheAge = (case cachedSchema s of None \<Rightarrow> None | Some _ \<Rightarrow> Some (now w - schemaTimestamp s)),
      cacheTTL = SCHEMA_CACHE_TTL\<rparr>"

definition handleGetStatus :: "world \<Rightarrow> server_state \<Rightarrow> tool_result" where
  "handleGetStatus w s = \<lparr>content = StatusReport (status_object w s), isError = False\<rparr>"

section \<open>Configuration handler\<close>

text \<open>
  \<open>handleConfigureGraphQL\<close> returns its result, or the error it throws, and the state it
  leaves. What it throws (the error of \<open>loadEnvironmentConfig\<close>, then argument parsing,
  missing endpoint, failed probe) comes before the first assignment to \<^verbatim>\<open>state\<close>. After
  the assignments the introspection runs inside \<^verbatim>\<open>try\<close>/\<^verbatim>\<open>catch\<close>: a failed request, or a result without \<^verbatim>\<open>__schema\<close> (a
  \<^verbatim>\<open>TypeError\<close> in \<open>createMCPToolsFromSchema\<close>), is logged and the call still succeeds.
\<close>

definition introspect_step :: "world \<Rightarrow> graphql_client \<Rightarrow> server_state \<Rightarrow> server_state" where
  "introspect_step w testClient s =
     (case request w testClient (introspectionQuery w) [] of
        Inl err \<Rightarrow> s
      | Inr schemaResult \<Rightarrow>
          (let s' = s\<lparr>cachedSchema := Some schemaResult, schemaTimestamp := now w\<rparr>
           in case as_schema schemaResult of
                None \<Rightarrow> s'
              | Some schemaData \<Rightarrow>
                  s'\<lparr>dynamicTools := createMCPToolsFromSchema (config s') schemaData\<rparr>))"

definition handleConfigureGraphQL ::
  "world \<Rightarrow> partial_config \<Rightarrow> server_state \<Rightarrow> (error + tool_result) \<times> server_state" where
  "handleConfigureGraphQL w arguments s =
     (case loadEnvironmentConfig (JSON_parse w) (env w) of
        None \<Rightarrow> (Inl TypeError, s)
      | Some envConfig \<Rightarrow>
         (case ConfigureArgsSchema_parse (is_url w) arguments of
            None \<Rightarrow> (Inl ZodError, s)
          | Some parsedArgs \<Rightarrow>
             (let cfg = merge_config envConfig parsedArgs
              in case truthy (cfg_endpoint cfg) of
                   None \<Rightarrow> (Inl (McpError InvalidParams EndpointRequired), s)
                 | Some ep \<Rightarrow>
                     (let testClient = \<lparr>c_endpoint = ep, c_headers = cfg_headers cfg\<rparr>
                      in case request w testClient ''{ __typename }'' [] of
                           Inl err \<Rightarrow>
                             (Inl (McpError InternalError (ConnectFailed (error_message err))), s)
                         | Inr _ \<Rightarrow>
                             (let s1 = s\<lparr>client := Some testClient,
                                         endpoint := cfg_endpoint cfg,
                                         config := Some cfg,
                                         cachedSchema := None,
                                         schemaTimestamp := 0,
                                         dynamicTools := []\<rparr>;
                                  s2 = introspect_step w testClient s1
                              in (Inr \<lparr>content = ConfigureSummary ep (maxDepth cfg) (maxComplexity cfg)
                                                   (disabledResolvers cfg) (timeout cfg)
                                                   (length (dynamicTools s2)),
                                       isError = False\<rparr>,
                                  s2))))))"

section \<open>Resolver handler\<close>

definition scalarTypes :: "string list" where
  "scalarTypes = [''String'', ''Int'', ''Float'', ''Boolean'', ''ID'']"

definition commonFields :: "string list" where
  "commonFields = [''id'', ''name'', ''code'', ''title'']"

definition is_scalar_field :: "gql_field \<Rightarrow> bool" where
  "is_scalar_field f =
     (case getLeafType (field_type f) of
        Named k n e \<Rightarrow> (case n of None \<Rightarrow> False | Some v \<Rightarrow> v \<in> set scalarTypes) \<or> k = ENUM
      | _ \<Rightarrow> False)"

text \<open>The part of \<open>getBasicSelectionSet\<close> that reads the cached schema.\<close>

definition schema_selection :: "server_state \<Rightarrow> string \<Rightarrow> string option" where
  "schema_selection s rt =
     (case cachedSchema s of
        None \<Rightarrow> None
      | Some resp \<Rightarrow>
          (case as_schema resp of
             None \<Rightarrow> None
           | Some schemaData \<Rightarrow>
               (case find (\<lambda>t. gt_name t = rt) (types schemaData) of
                  None \<Rightarrow> None
                | Some ty \<Rightarrow>
                    (case gt_fields ty of
                       None \<Rightarrow> None
                     | Some fs \<Rightarrow>
                         (let scalarFields = map field_name (take 5 (filter is_scalar_field fs))
                          in if scalarFields \<noteq> []
                             then Some ('' { '' @ join '' '' scalarFields @ '' }'')
                             else None)))))"

definition getBasicSelectionSet :: "server_state \<Rightarrow> string \<Rightarrow> string" where
  "getBasicSelectionSet s rt =
     (if rt \<in> set scalarTypes \<or> rt = ''Mixed'' then []
      else (case schema_selection s rt of
              Some sel \<Rightarrow> sel
            | None \<Rightarrow> '' { '' @ join '' '' commonFields @ '' }''))"

text \<open>
  The loop of \<open>handleGraphQLResolver\<close> over \<^verbatim>\<open>Object.entries(parsedArgs)\<close> with the three
  things it fills: \<^verbatim>\<open>argPairs\<close>, \<^verbatim>\<open>varPairs\<close> and \<^verbatim>\<open>variables\<close>.
\<close>

fun entry_loop :: "tool \<Rightarrow> (string \<times> json) list \<Rightarrow> string list \<Rightarrow> string list
                   \<Rightarrow> (string \<times> json) list \<Rightarrow> string list \<times> string list \<times> (string \<times> json) list" where
  "entry_loop t [] argPairs varPairs variables = (argPairs, varPairs, variables)"
| "entry_loop t ((key, val) # rest) argPairs varPairs variables =
     (let gqlType = (case find (\<lambda>a. arg_name a = key) (args (resolver t)) of
                       Some a \<Rightarrow> getGraphQLTypeString (arg_type a)
                     | None \<Rightarrow> ''String'')
      in entry_loop t rest
           (argPairs @ [key @ '': $'' @ key])
           (varPairs @ [''$'' @ key @ '': '' @ gqlType])
           (obj_assign variables key val))"

text \<open>The query text and the variables that \<open>handleGraphQLResolver\<close> builds.\<close>

definition build_query :: "server_state \<Rightarrow> tool \<Rightarrow> (string \<times> json) list option
                           \<Rightarrow> string \<times> (string \<times> json) list" where
  "build_query s t arguments =
     (let entries = (case arguments of None \<Rightarrow> [] | Some kvs \<Rightarrow> kvs);
          (argPairs, varPairs, variables) = entry_loop t entries [] [] [];
          argsString = (if argPairs = [] then [] else ''('' @ join '', '' argPairs @ '')'');
          variablesString = (if argPairs = [] then [] else ''('' @ join '', '' varPairs @ '')'');
          selectionSet = getBasicSelectionSet s (returnType (resolver t));
          query = op_word (r_type (resolver t)) @ '' '' @ variablesString @ '' {'' @ NL
                  @ ''    '' @ fieldName (resolver t) @ argsString @ selectionSet @ NL
                  @ ''  }''
      in (query, variables))"

definition op_title :: "op_type \<Rightarrow> string" where
  "op_title t = (case t of Mutation \<Rightarrow> ''Mutation'' | Query \<Rightarrow> ''Query'')"

definition success_text :: "server_state \<Rightarrow> tool \<Rightarrow> response \<Rightarrow> string" where
  "success_text s t result =
     ok_mark @ '' '' @ op_title (r_type (resolver t)) @ '' executed: '' @ fieldName (resolver t)
     @ NL @ NL @ ''Endpoint: '' @ show_name (endpoint s)
     @ NL @ NL @ ''Result:'' @ NL @ rendered result"

definition failure_text :: "tool \<Rightarrow> string \<Rightarrow> string \<Rightarrow> string" where
  "failure_text t errorMessage query =
     fail_mark @ '' '' @ op_title (r_type (resolver t)) @ '' failed: '' @ fieldName (resolver t)
     @ NL @ NL @ ''Error: '' @ errorMessage
     @ NL @ NL @ ''Query:'' @ NL @ query"

definition not_configured_suggestion :: "partial_config \<Rightarrow> string" where
  "not_configured_suggestion envConfig =
     (if p_endpoint envConfig \<noteq> None
      then ''Use configure_graphql tool to activate the endpoint, or check server logs for auto-configuration errors.''
      else ''Use configure_graphql tool first, or set GRAPHQL_ENDPOINT environment variable.'')"

definition handleGraphQLResolver ::
  "world \<Rightarrow> server_state \<Rightarrow> tool \<Rightarrow> (string \<times> json) list option \<Rightarrow> error + tool_result" where
  "handleGraphQLResolver w s t arguments =
     (case (client s, config s) of
        (Some cl, Some cfg) \<Rightarrow>
          (let (query, variables) = build_query s t arguments
           in case validateQueryConstraints query cfg of
                Inl e \<Rightarrow> Inl e
              | Inr _ \<Rightarrow>
                  (case request w cl query variables of
                     Inr result \<Rightarrow>
                       Inr \<lparr>content = Text (success_text s t result), isError = False\<rparr>
                   | Inl err \<Rightarrow>
                       Inr \<lparr>content = Text (failure_text t (error_message err) query),
                            isError = True\<rparr>))
      | _ \<Rightarrow>
          (case loadEnvironmentConfig (JSON_parse w) (env w) of
             None \<Rightarrow> Inl TypeError
           | Some envConfig \<Rightarrow>
               Inl (McpError InvalidRequest (NotConfigured (not_configured_suggestion envConfig)))))"

section \<open>The tool list and the dispatcher\<close>

text \<open>The \<^verbatim>\<open>tools/list\<close> handler: the names of the tools it returns, in order.\<close>

definition listTools :: "server_state \<Rightarrow> string list" where
  "listTools s = ''get_status'' # map name (dynamicTools s)"

text \<open>
  The \<^verbatim>\<open>tools/call\<close> handler: \<open>get_status\<close>, then a dynamic tool of that name, else the
  \<^verbatim>\<open>MethodNotFound\<close> error. Its \<^verbatim>\<open>catch\<close> rethrows an \<^verbatim>\<open>McpError\<close> as it is and
  wraps any other error into an \<^verbatim>\<open>InternalError\<close>. No branch calls
  \<open>handleConfigureGraphQL\<close>, and the state is not changed.
\<close>

definition callTool ::
  "world \<Rightarrow> string \<Rightarrow> (string \<times> json) list option \<Rightarrow> server_state \<Rightarrow> error + tool_result" where
  "callTool w toolName arguments s =
     (if toolName = ''get_status'' then Inr (handleGetStatus w s)
      else
        (case find (\<lambda>t. name t = toolName) (dynamicTools s) of
           Some dynamicTool \<Rightarrow>
             (case handleGraphQLResolver w s dynamicTool arguments of
                Inl (McpError code msg) \<Rightarrow> Inl (McpError code msg)
              | Inl _ \<Rightarrow> Inl (McpError InternalError ToolExecutionFailed)
              | Inr result \<Rightarrow> Inr result)
         | None \<Rightarrow>
             Inl (McpError MethodNotFound
                    (UnknownTool toolName (''get_status'' # map name (dynamicTools s))))))"

text \<open>
  \<open>main\<close>, as far as the state goes: when the environment gives an endpoint,
  \<^verbatim>\<open>handleConfigureGraphQL({})\<close> runs once and its error, if any, is logged. When
  \<open>loadEnvironmentConfig\<close> throws, \<open>main\<close> fails and the process exits: \<open>None\<close>.
\<close>

definition empty_arguments :: partial_config where
  "empty_arguments =
     \<lparr>p_endpoint = None, p_headers = None, p_timeout = None, p_maxDepth = None,
      p_maxComplexity = None, p_disabledResolvers = None\<rparr>"

definition main_configure :: "world \<Rightarrow> server_state \<Rightarrow> server_state option" where
  "main_configure w s =
     (case loadEnvironmentConfig (JSON_parse w) (env w) of
        None \<Rightarrow> None
      | Some envConfig \<Rightarrow>
          if p_endpoint envConfig \<noteq> None
          then Some (snd (handleConfigureGraphQL w empty_arguments s))
          else Some s)"

section \<open>Properties of the scores\<close>

subsection \<open>The complexity score counts word tokens\<close>

lemma is_word_not_space: "is_word c \<Longrightarrow> \<not> is_space c"
  by (auto simp: is_word_def is_space_def Let_def)

lemma is_word_not_bracket: "is_word c \<Longrightarrow> c \<noteq> CHR ''{'' \<and> c \<noteq> CHR ''(''"
  by (auto simp: is_word_def Let_def)

lemma lookahead_word: "is_word c \<Longrightarrow> \<not> lookahead (c # cs)"
  by (simp add: lookahead_def is_word_not_space is_word_not_bracket)

lemma drop_inside_run:
  "n < length (takeWhile is_word s) \<Longrightarrow> \<exists>c cs. drop n s = c # cs \<and> is_word c"
proof -
  assume n: "n < length (takeWhile is_word s)"
  then have "n < length s" using length_takeWhile_le[of is_word s] by linarith
  then have "drop n s = s ! n # drop (Suc n) s" by (simp add: Cons_nth_drop_Suc)
  moreover have "is_word (s ! n)"
    using n nth_length_takeWhile takeWhile_nth
    by (metis nth_mem set_takeWhileD)
  ultimately show ?thesis by blast
qed

lemma backtrack_inside_run: "n < length (takeWhile is_word s) \<Longrightarrow> backtrack s n = None"
proof (induction n)
  case 0
  then show ?case by simp
next
  case (Suc n)
  from drop_inside_run[OF Suc.prems] have "\<not> lookahead (drop (Suc n) s)"
    by (auto simp: lookahead_word)
  with Suc show ?case by simp
qed

lemma match_word_at_Cons:
  "match_word_at (c # cs) =
     (if is_word c \<and> lookahead (dropWhile is_word cs)
      then Some (Suc (length (takeWhile is_word cs))) else None)"
proof (cases "is_word c")
  case False
  then show ?thesis by (simp add: match_word_at_def)
next
  case True
  let ?n = "length (takeWhile is_word cs)"
  have "drop (Suc ?n) (c # cs) = dropWhile is_word cs"
    by (simp add: dropWhile_eq_drop)
  moreover have "backtrack (c # cs) ?n = None"
    using True by (intro backtrack_inside_run) simp
  ultimately show ?thesis using True by (simp add: match_word_at_def)
qed

lemma count_matches_skip_run:
  "\<not> lookahead (dropWhile is_word s) \<Longrightarrow> count_matches s = count_matches (dropWhile is_word s)"
proof (induction s)
  case Nil
  then show ?case by simp
next
  case (Cons c cs)
  then show ?case by (cases "is_word c") (simp_all add: match_word_at_Cons)
qed

lemma count_matches_Cons:
  "count_matches (c # cs) =
     (if is_word c
      then (if lookahead (dropWhile is_word cs) then 1 else 0) + count_matches (dropWhile is_word cs)
      else count_matches cs)"
  using count_matches_skip_run[of cs]
  by (simp add: match_word_at_Cons dropWhile_eq_drop)

lemma count_matches_tokens: "count_matches s = word_tokens_before_bracket s"
proof (induction s rule: word_tokens_before_bracket.induct)
  case 1
  then show ?case by simp
next
  case (2 c cs)
  then show ?case
    by (cases "is_word c") (simp_all add: count_matches_Cons del: count_matches.simps)
qed

subsection \<open>The depth score is the running maximum\<close>

lemma brace_counter_Nil: "brace_counter [] = 0"
  by (simp add: brace_counter_def)

lemma brace_counter_Cons:
  "brace_counter (c # p) =
     (if c = CHR ''{'' then 1 else if c = CHR ''}'' then - 1 else 0) + brace_counter p"
  by (simp add: brace_counter_def)


lemma Max_prefix_Cons:
  "Max ((\<lambda>k. d + brace_counter (take k (c # cs))) ` {0..length (c # cs)}) =
   max d (Max ((\<lambda>k. d + brace_counter (c # take k cs)) ` {0..length cs}))"
proof -
  have "(\<lambda>k. d + brace_counter (take k (c # cs))) ` {0..length (c # cs)} =
        insert d ((\<lambda>k. d + brace_counter (c # take k cs)) ` {0..length cs})"
    unfolding length_Cons atLeast0_atMost_Suc_eq_insert_0 image_insert image_image
    by (simp add: brace_counter_Nil)
  then show ?thesis by simp
qed

lemma depth_loop_running:
  "d \<le> m \<Longrightarrow>
   depth_loop cs d m = max m (Max ((\<lambda>k. d + brace_counter (take k cs)) ` {0..length cs}))"
proof (induction cs arbitrary: d m)
  case Nil
  then show ?case by (simp add: brace_counter_Nil)
next
  case (Cons c cs)
  let ?M = "\<lambda>e. Max ((\<lambda>k. e + brace_counter (take k cs)) ` {0..length cs})"
  have ge: "e \<le> ?M e" for e
  proof -
    have "e + brace_counter (take 0 cs) \<in> (\<lambda>k. e + brace_counter (take k cs)) ` {0..length cs}"
      by (rule imageI) simp
    then have "e + brace_counter (take 0 cs) \<le> ?M e" by (intro Max_ge) auto
    then show ?thesis by (simp add: brace_counter_Nil)
  qed
  show ?case
  proof (cases "c = CHR ''{''")
    case True
    have "depth_loop (c # cs) d m = max (max m (d + 1)) (?M (d + 1))"
      using True Cons.prems by (simp add: Cons.IH)
    moreover have "(\<lambda>k. d + brace_counter (c # take k cs)) = (\<lambda>k. (d + 1) + brace_counter (take k cs))"
      using True by (auto simp: brace_counter_Cons)
    ultimately show ?thesis using ge[of "d + 1"] Cons.prems
      by (simp only: Max_prefix_Cons, linarith?)
  next
    case False
    note nb = this
    show ?thesis
    proof (cases "c = CHR ''}''")
      case True
      have "depth_loop (c # cs) d m = max m (?M (d - 1))"
        using True nb Cons.prems by (simp add: Cons.IH)
      moreover have "(\<lambda>k. d + brace_counter (c # take k cs)) = (\<lambda>k. (d - 1) + brace_counter (take k cs))"
        using True by (auto simp: brace_counter_Cons)
      ultimately show ?thesis using Cons.prems
        by (simp only: Max_prefix_Cons, linarith?)
    next
      case False
      have "depth_loop (c # cs) d m = max m (?M d)"
        using False nb Cons.prems by (simp add: Cons.IH)
      moreover have "(\<lambda>k. d + brace_counter (c # take k cs)) = (\<lambda>k. d + brace_counter (take k cs))"
        using False nb by (auto simp: brace_counter_Cons)
      ultimately show ?thesis using ge[of d] Cons.prems
        by (simp only: Max_prefix_Cons, linarith?)
    qed
  qed
qed

lemma depth_eq_running_maximum: "calculateQueryDepth q = running_maximum q"
proof -
  have "0 \<le> running_maximum q"
  proof -
    have "brace_counter (take 0 q) \<in> (\<lambda>k. brace_counter (take k q)) ` {0..length q}"
      by (rule imageI) simp
    then have "brace_counter (take 0 q) \<le> running_maximum q"
      unfolding running_maximum_def by (intro Max_ge) auto
    then show ?thesis by (simp add: brace_counter_Nil)
  qed
  then show ?thesis
    using depth_loop_running[of 0 0 q] by (simp add: calculateQueryDepth_def running_maximum_def)
qed

section \<open>Properties of sanitization\<close>

text \<open>White space is normal in a text when each white-space character is a single space with no
  white space behind it.\<close>

fun ws_norm :: "string \<Rightarrow> bool" where
  "ws_norm [] = True"
| "ws_norm [c] = (is_space c \<longrightarrow> c = CHR '' '')"
| "ws_norm (c # d # cs) = ((is_space c \<longrightarrow> c = CHR '' '' \<and> \<not> is_space d) \<and> ws_norm (d # cs))"

lemma is_space_blank: "is_space (CHR '' '')"
  by (simp add: is_space_def)

lemma strip_line_no_hash: "CHR ''#'' \<notin> set (strip_line_comments s)"
  by (induction s rule: strip_line_comments.induct) auto

lemma strip_line_id: "CHR ''#'' \<notin> set s \<Longrightarrow> strip_line_comments s = s"
  by (induction s) auto

lemma set_collapse: "set (collapse_whitespace s) \<subseteq> insert (CHR '' '') (set s)"
proof (induction s rule: collapse_whitespace.induct)
  case 1
  then show ?case by simp
next
  case (2 c cs)
  have "set (dropWhile is_space cs) \<subseteq> set cs" by (auto dest: set_dropWhileD)
  with 2 show ?case by (auto split: if_splits)
qed

lemma set_trim: "set (trim s) \<subseteq> set s"
proof -
  have "set (trim s) \<subseteq> set (dropWhile is_space s)"
    unfolding trim_def set_rev by (auto dest: set_dropWhileD)
  also have "\<dots> \<subseteq> set s" by (auto dest: set_dropWhileD)
  finally show ?thesis .
qed

lemma sanitize_no_hash: "CHR ''#'' \<notin> set (sanitizeQuery s)"
proof -
  have "CHR ''#'' \<notin> insert (CHR '' '') (set (strip_line_comments (strip_block_comments s)))"
    by (simp add: strip_line_no_hash)
  then have "CHR ''#'' \<notin> set (collapse_whitespace (strip_line_comments (strip_block_comments s)))"
    using set_collapse by blast
  then show ?thesis unfolding sanitizeQuery_def using set_trim by blast
qed

lemma ws_norm_nonspace: "\<not> is_space c \<Longrightarrow> ws_norm (c # xs) = ws_norm xs"
  by (cases xs) auto

lemma ws_norm_space:
  "ws_norm (CHR '' '' # xs) = ((case xs of [] \<Rightarrow> True | d # _ \<Rightarrow> \<not> is_space d) \<and> ws_norm xs)"
  by (cases xs) (auto simp: is_space_blank)

lemma collapse_nonspace_head:
  "case collapse_whitespace (dropWhile is_space cs) of [] \<Rightarrow> True | d # _ \<Rightarrow> \<not> is_space d"
proof (cases "dropWhile is_space cs")
  case Nil
  then show ?thesis by (simp only: collapse_whitespace.simps list.case)
next
  case (Cons d r)
  have "\<not> is_space (hd (dropWhile is_space cs))"
    by (rule hd_dropWhile) (simp add: Cons)
  then have "\<not> is_space d" by (simp add: Cons)
  with Cons show ?thesis by simp
qed

lemma ws_norm_collapse: "ws_norm (collapse_whitespace s)"
proof (induction s rule: collapse_whitespace.induct)
  case 1
  then show ?case by simp
next
  case (2 c cs)
  show ?case
  proof (cases "is_space c")
    case True
    with 2 collapse_nonspace_head[of cs] show ?thesis by (simp add: ws_norm_space)
  next
    case False
    with 2 show ?thesis by (simp add: ws_norm_nonspace)
  qed
qed

lemma collapse_id: "ws_norm s \<Longrightarrow> collapse_whitespace s = s"
  by (induction s rule: ws_norm.induct) auto

lemma ws_norm_append: "ws_norm (xs @ ys) \<Longrightarrow> ws_norm xs \<and> ws_norm ys"
proof (induction xs rule: ws_norm.induct)
  case 1
  then show ?case by simp
next
  case (2 c)
  then show ?case by (cases ys) auto
next
  case (3 c d cs)
  then show ?case by auto
qed

lemma trim_split: "\<exists>pre post. pre @ trim s @ post = s"
proof -
  let ?w = "dropWhile is_space s"
  have "rev (dropWhile is_space (rev ?w)) @ rev (takeWhile is_space (rev ?w)) = ?w"
    by (simp only: rev_append[symmetric] takeWhile_dropWhile_id rev_rev_ident)
  then have "takeWhile is_space s @ trim s @ rev (takeWhile is_space (rev ?w)) = s"
    by (simp only: trim_def takeWhile_dropWhile_id)
  then show ?thesis by blast
qed

lemma ws_norm_trim: "ws_norm s \<Longrightarrow> ws_norm (trim s)"
proof -
  assume a: "ws_norm s"
  obtain pre post where e: "pre @ trim s @ post = s" using trim_split by blast
  from a have "ws_norm (pre @ trim s @ post)" by (simp only: e)
  then have "ws_norm (trim s @ post)" using ws_norm_append by blast
  then show ?thesis using ws_norm_append by blast
qed

lemma trim_idem: "trim (trim s) = trim s"
proof -
  let ?w = "dropWhile is_space s"
  let ?z = "dropWhile is_space (rev ?w)"
  define X where "X = rev (takeWhile is_space (rev ?w))"
  have w: "rev ?z @ X = ?w"
    unfolding X_def by (simp only: rev_append[symmetric] takeWhile_dropWhile_id rev_rev_ident)
  have A: "dropWhile is_space (rev ?z) = rev ?z"
  proof (cases "rev ?z")
    case Nil
    then show ?thesis by (simp only: dropWhile.simps)
  next
    case (Cons a r)
    have "(a # r) @ X = ?w" using w by (simp only: Cons)
    then have hd: "?w = a # (r @ X)" by simp
    have "\<not> is_space (hd ?w)" by (rule hd_dropWhile) (simp only: hd, simp)
    then have "\<not> is_space a" by (simp add: hd)
    then have "dropWhile is_space (a # r) = a # r" by simp
    then show ?thesis by (simp only: Cons)
  qed
  have "trim (trim s) = rev (dropWhile is_space (rev (dropWhile is_space (rev ?z))))"
    by (simp only: trim_def)
  also have "\<dots> = rev (dropWhile is_space ?z)" by (simp only: A rev_rev_ident)
  also have "\<dots> = rev ?z" by (simp only: dropWhile_idem)
  finally show ?thesis by (simp only: trim_def)
qed

lemma length_strip_block: "length (strip_block_comments s) \<le> length s"
proof (induction s rule: strip_block_comments.induct)
  case 1
  then show ?case by simp
next
  case (2 c cs)
  show ?case
  proof (cases "block_comment_at (c # cs)")
    case None
    with 2 show ?thesis by simp
  next
    case (Some rest)
    with 2 block_comment_at_length[OF Some] show ?thesis by simp
  qed
qed

lemma strip_block_fixed: "length (strip_block_comments s) = length s \<Longrightarrow> strip_block_comments s = s"
proof (induction s rule: strip_block_comments.induct)
  case 1
  then show ?case by simp
next
  case (2 c cs)
  show ?case
  proof (cases "block_comment_at (c # cs)")
    case None
    with 2 show ?thesis by simp
  next
    case (Some rest)
    have "length (strip_block_comments rest) \<le> length rest" by (rule length_strip_block)
    with 2 block_comment_at_length[OF Some] Some show ?thesis by simp
  qed
qed

lemma length_strip_line: "length (strip_line_comments s) \<le> length s"
proof (induction s rule: strip_line_comments.induct)
  case 1
  then show ?case by simp
next
  case (2 c cs)
  have "length (dropWhile (\<lambda>x. \<not> is_eol x) cs) \<le> length cs" by (rule length_dropWhile_le)
  with 2 show ?case by (auto split: if_splits)
qed

lemma length_collapse: "length (collapse_whitespace s) \<le> length s"
proof (induction s rule: collapse_whitespace.induct)
  case 1
  then show ?case by simp
next
  case (2 c cs)
  have "length (dropWhile is_space cs) \<le> length cs" by (rule length_dropWhile_le)
  with 2 show ?case by (auto split: if_splits)
qed

lemma length_trim: "length (trim s) \<le> length s"
proof -
  have "length (trim s) \<le> length (dropWhile is_space s)"
    unfolding trim_def length_rev by (metis length_dropWhile_le length_rev)
  also have "\<dots> \<le> length s" by (rule length_dropWhile_le)
  finally show ?thesis .
qed

lemma length_sanitize: "length (sanitizeQuery s) \<le> length (strip_block_comments s)"
proof -
  let ?b = "strip_block_comments s"
  have "length (sanitizeQuery s) \<le> length (collapse_whitespace (strip_line_comments ?b))"
    unfolding sanitizeQuery_def by (rule length_trim)
  also have "\<dots> \<le> length (strip_line_comments ?b)" by (rule length_collapse)
  also have "\<dots> \<le> length ?b" by (rule length_strip_line)
  finally show ?thesis .
qed

lemma sanitize_tail_fixed:
  "trim (collapse_whitespace (strip_line_comments (sanitizeQuery s))) = sanitizeQuery s"
proof -
  let ?t = "sanitizeQuery s"
  have 1: "strip_line_comments ?t = ?t" by (rule strip_line_id[OF sanitize_no_hash])
  have "ws_norm ?t" unfolding sanitizeQuery_def by (intro ws_norm_trim ws_norm_collapse)
  then have 2: "collapse_whitespace ?t = ?t" by (rule collapse_id)
  have 3: "trim ?t = ?t" unfolding sanitizeQuery_def by (rule trim_idem)
  show ?thesis by (simp only: 1 2 3)
qed

subsection \<open>Texts without a comment opener\<close>

lemma sublist_between: "sublist x m \<Longrightarrow> sublist x (l @ m @ r)"
proof -
  assume "sublist x m"
  then obtain ps ss where "m = ps @ x @ ss" by (auto simp: sublist_def)
  then have "l @ m @ r = (l @ ps) @ x @ (ss @ r)" by simp
  then show ?thesis unfolding sublist_def by blast
qed

lemma sublist_dropWhile: "sublist t (dropWhile P s) \<Longrightarrow> sublist t s"
proof -
  assume "sublist t (dropWhile P s)"
  then have "sublist t (takeWhile P s @ dropWhile P s @ [])" by (rule sublist_between)
  then show ?thesis by simp
qed

lemma opener_Cons:
  "sublist ''/*'' (c # cs) = ((c = CHR ''/'' \<and> (\<exists>r. cs = CHR ''*'' # r)) \<or> sublist ''/*'' cs)"
  by (cases cs) (auto simp: sublist_Cons_right)

lemma strip_block_no_opener: "\<not> sublist ''/*'' s \<Longrightarrow> strip_block_comments s = s"
proof (induction s rule: strip_block_comments.induct)
  case 1
  then show ?case by simp
next
  case (2 c cs)
  from "2.prems" have no: "\<not> (c = CHR ''/'' \<and> (\<exists>r. cs = CHR ''*'' # r))" "\<not> sublist ''/*'' cs"
    by (simp_all add: opener_Cons)
  from no(1) have none: "block_comment_at (c # cs) = None"
    by (auto simp: block_comment_at_def split: list.splits)
  with 2 no(2) show ?case by simp
qed

lemma strip_line_head:
  "strip_line_comments cs = CHR ''*'' # r \<Longrightarrow> \<exists>r'. cs = CHR ''*'' # r'"
proof (cases cs)
  case Nil
  then show "strip_line_comments cs = CHR ''*'' # r \<Longrightarrow> ?thesis" by simp
next
  case (Cons x xs)
  assume a: "strip_line_comments cs = CHR ''*'' # r"
  show ?thesis
  proof (cases "x = CHR ''#''")
    case False
    with a Cons show ?thesis by simp
  next
    case True
    with a Cons have b: "strip_line_comments (dropWhile (\<lambda>x. \<not> is_eol x) xs) = CHR ''*'' # r"
      by simp
    show ?thesis
    proof (cases "dropWhile (\<lambda>x. \<not> is_eol x) xs")
      case Nil
      with b show ?thesis by simp
    next
      case (Cons y ys)
      have "\<not> \<not> is_eol (hd (dropWhile (\<lambda>x. \<not> is_eol x) xs))"
        by (rule hd_dropWhile) (simp add: Cons)
      then have "is_eol y" by (simp add: Cons)
      then have "y \<noteq> CHR ''#''" "y \<noteq> CHR ''*''" by (auto simp: is_eol_def)
      with b Cons show ?thesis by simp
    qed
  qed
qed

lemma strip_line_opener: "sublist ''/*'' (strip_line_comments s) \<Longrightarrow> sublist ''/*'' s"
proof (induction s rule: strip_line_comments.induct)
  case 1
  then show ?case by simp
next
  case (2 c cs)
  show ?case
  proof (cases "c = CHR ''#''")
    case True
    with 2 have "sublist ''/*'' (dropWhile (\<lambda>x. \<not> is_eol x) cs)" by simp
    then have "sublist ''/*'' cs" by (rule sublist_dropWhile)
    then show ?thesis by (simp add: opener_Cons)
  next
    case False
    with "2.prems" have "sublist ''/*'' (c # strip_line_comments cs)" by simp
    then consider "c = CHR ''/''" "\<exists>r. strip_line_comments cs = CHR ''*'' # r"
      | "sublist ''/*'' (strip_line_comments cs)"
      by (auto simp: opener_Cons)
    then show ?thesis
    proof cases
      case 1
      then show ?thesis using strip_line_head by (auto simp: opener_Cons)
    next
      case 2
      with False "2.IH"(2) show ?thesis by (simp add: opener_Cons)
    qed
  qed
qed

lemma collapse_head:
  "collapse_whitespace cs = CHR ''*'' # r \<Longrightarrow> \<exists>r'. cs = CHR ''*'' # r'"
  by (cases cs) (auto split: if_splits)

lemma collapse_opener: "sublist ''/*'' (collapse_whitespace s) \<Longrightarrow> sublist ''/*'' s"
proof (induction s rule: collapse_whitespace.induct)
  case 1
  then show ?case by simp
next
  case (2 c cs)
  show ?case
  proof (cases "is_space c")
    case True
    with "2.prems" have "sublist ''/*'' (CHR '' '' # collapse_whitespace (dropWhile is_space cs))"
      by simp
    then have "sublist ''/*'' (collapse_whitespace (dropWhile is_space cs))"
      by (simp add: opener_Cons)
    with True "2.IH"(1) have "sublist ''/*'' (dropWhile is_space cs)" by simp
    then have "sublist ''/*'' cs" by (rule sublist_dropWhile)
    then show ?thesis by (simp add: opener_Cons)
  next
    case False
    with "2.prems" have "sublist ''/*'' (c # collapse_whitespace cs)" by simp
    then consider "c = CHR ''/''" "\<exists>r. collapse_whitespace cs = CHR ''*'' # r"
      | "sublist ''/*'' (collapse_whitespace cs)"
      by (auto simp: opener_Cons)
    then show ?thesis
    proof cases
      case 1
      then show ?thesis using collapse_head by (auto simp: opener_Cons)
    next
      case 2
      with False "2.IH"(2) show ?thesis by (simp add: opener_Cons)
    qed
  qed
qed

lemma trim_opener: "sublist ''/*'' (trim s) \<Longrightarrow> sublist ''/*'' s"
proof -
  assume a: "sublist ''/*'' (trim s)"
  obtain pre post where e: "pre @ trim s @ post = s" using trim_split by blast
  from a have "sublist ''/*'' (pre @ trim s @ post)" by (rule sublist_between)
  then show ?thesis by (simp only: e)
qed

lemma sanitize_no_opener: "\<not> sublist ''/*'' s \<Longrightarrow> \<not> sublist ''/*'' (sanitizeQuery s)"
proof
  assume no: "\<not> sublist ''/*'' s" and a: "sublist ''/*'' (sanitizeQuery s)"
  from no have id: "strip_block_comments s = s" by (rule strip_block_no_opener)
  from a have "sublist ''/*'' (trim (collapse_whitespace (strip_line_comments s)))"
    by (simp add: sanitizeQuery_def id)
  then have "sublist ''/*'' (collapse_whitespace (strip_line_comments s))"
    by (rule trim_opener)
  then have "sublist ''/*'' (strip_line_comments s)"
    by (rule collapse_opener)
  then have "sublist ''/*'' s"
    by (rule strip_line_opener)
  with no show False by simp
qed

lemma sanitized_fixed_no_opener:
  "\<not> sublist ''/*'' s \<Longrightarrow> strip_block_comments (sanitizeQuery s) = sanitizeQuery s"
  by (rule strip_block_no_opener) (rule sanitize_no_opener)

section \<open>Properties of validation\<close>

lemma includes_str_sublist: "includes_str s t = sublist t s"
  by (induction s) (simp_all add: sublist_Cons_right)

lemma validate_cases:
  "validateQueryConstraints q cfg =
     (if real (calculateQueryComplexity (sanitizeQuery q)) > maxComplexity cfg
      then Inl (McpError InvalidParams
                  (ComplexityExceeded (calculateQueryComplexity (sanitizeQuery q)) (maxComplexity cfg)))
      else if real_of_int (calculateQueryDepth (sanitizeQuery q)) > maxDepth cfg
      then Inl (McpError InvalidParams
                  (DepthExceeded (calculateQueryDepth (sanitizeQuery q)) (maxDepth cfg)))
      else (case find (\<lambda>r. sublist (toLowerCase r) (toLowerCase (sanitizeQuery q)))
                      (disabledResolvers cfg) of
              Some r \<Rightarrow> Inl (McpError InvalidParams (ResolverDisabled r))
            | None \<Rightarrow> Inr ()))"
  by (simp add: validateQueryConstraints_def Let_def includes_str_sublist)

text \<open>Limits used in the examples: the defaults of the argument schema, with the given
  maximum depth, maximum complexity and disabled resolvers.\<close>

definition limits :: "real \<Rightarrow> real \<Rightarrow> string list \<Rightarrow> config" where
  "limits d c disabled =
     \<lparr>cfg_endpoint = Some ''https://countries.trevorblades.com/'', cfg_headers = [],
      timeout = 30000, maxDepth = d, maxComplexity = c, disabledResolvers = disabled\<rparr>"

text \<open>
  C5. For every query text the complexity score of \<open>calculateQueryComplexity\<close> is the number
  of word tokens that are followed, up to white space, by an opening brace or parenthesis;
  the text \<open>{ countries { name code emoji } }\<close> scores 1; and \<open>validateQueryConstraints\<close>
  rejects with a complexity error exactly when the score of the sanitized text is strictly
  greater than the configured maximum complexity.
\<close>

theorem complexity_score_and_limit:
  "calculateQueryComplexity q = word_tokens_before_bracket q
   \<and> calculateQueryComplexity (sanitizeQuery ''{ countries { name code emoji } }'') = 1
   \<and> ((\<exists>n lim. validateQueryConstraints q cfg
                   = Inl (McpError InvalidParams (ComplexityExceeded n lim)))
        = (real (calculateQueryComplexity (sanitizeQuery q)) > maxComplexity cfg))
   \<and> (validateQueryConstraints q cfg
          = Inl (McpError InvalidParams
                   (ComplexityExceeded (calculateQueryComplexity (sanitizeQuery q))
                                       (maxComplexity cfg))))
        = (real (calculateQueryComplexity (sanitizeQuery q)) > maxComplexity cfg)"
proof -
  have tokens: "calculateQueryComplexity q = word_tokens_before_bracket q"
    by (simp add: calculateQueryComplexity_def count_matches_tokens)
  have example: "calculateQueryComplexity (sanitizeQuery ''{ countries { name code emoji } }'') = 1"
    by code_simp
  have some: "(\<exists>n lim. validateQueryConstraints q cfg
                          = Inl (McpError InvalidParams (ComplexityExceeded n lim)))
              = (real (calculateQueryComplexity (sanitizeQuery q)) > maxComplexity cfg)"
    by (auto simp: validate_cases split: option.splits)
  have this_one: "(validateQueryConstraints q cfg
          = Inl (McpError InvalidParams
                   (ComplexityExceeded (calculateQueryComplexity (sanitizeQuery q))
                                       (maxComplexity cfg))))
        = (real (calculateQueryComplexity (sanitizeQuery q)) > maxComplexity cfg)"
    by (auto simp: validate_cases split: option.splits)
  from tokens example some this_one show ?thesis by blast
qed

theorem complexity_score_and_limit_witness:
  "word_tokens_before_bracket ''query { a { b } c(x: 1) }'' = 3
   \<and> validateQueryConstraints ''query { a { b } c(x: 1) }'' (limits 10 2 [])
       = Inl (McpError InvalidParams (ComplexityExceeded 3 2))"
proof -
  let ?q = "''query { a { b } c(x: 1) }''"
  have score: "calculateQueryComplexity ?q = 3" by code_simp
  have san: "sanitizeQuery ?q = ?q" by code_simp
  have lim: "maxComplexity (limits 10 2 []) = 2" by (simp add: limits_def)
  note inst = complexity_score_and_limit[of ?q "limits 10 2 []"]
  from inst score have "word_tokens_before_bracket ?q = 3" by simp
  moreover have "real (calculateQueryComplexity (sanitizeQuery ?q)) > maxComplexity (limits 10 2 [])"
    by (simp add: san score lim)
  with inst have "validateQueryConstraints ?q (limits 10 2 [])
      = Inl (McpError InvalidParams
               (ComplexityExceeded (calculateQueryComplexity (sanitizeQuery ?q))
                                   (maxComplexity (limits 10 2 []))))"
    by blast
  then have "validateQueryConstraints ?q (limits 10 2 [])
      = Inl (McpError InvalidParams (ComplexityExceeded 3 2))"
    by (simp only: san score lim)
  ultimately show ?thesis by blast
qed

text \<open>
  C6, as the claim states it, fails: a text whose depth is above the maximum depth is
  rejected with a complexity error, not a depth error, when its complexity is above the
  maximum complexity too, the complexity check being the first. Here the depth is 2, the
  complexity is 2, and both limits are 1.
\<close>

theorem depth_error_counterexample:
  "real_of_int (calculateQueryDepth (sanitizeQuery ''a { b { c } }'')) > maxDepth (limits 1 1 [])
   \<and> validateQueryConstraints ''a { b { c } }'' (limits 1 1 [])
       = Inl (McpError InvalidParams (ComplexityExceeded 2 1))
   \<and> validateQueryConstraints ''a { b { c } }'' (limits 1 1 [])
       \<noteq> Inl (McpError InvalidParams (DepthExceeded 2 1))"
proof -
  let ?q = "''a { b { c } }''"
  have san: "sanitizeQuery ?q = ?q" by code_simp
  have depth: "calculateQueryDepth ?q = 2" by code_simp
  have score: "calculateQueryComplexity ?q = 2" by code_simp
  show ?thesis
    by (simp add: validate_cases san depth score limits_def)
qed

text \<open>
  C6, amended. For every query text, also with unmatched braces, the depth score of
  \<open>calculateQueryDepth\<close> is the running maximum of a counter that starts at 0, goes up on
  each opening brace and down on each closing brace (below zero too); the text
  \<open>{ a { b { c } } }\<close> scores 3; and \<open>validateQueryConstraints\<close> rejects with a depth error
  exactly when the complexity check has passed and the depth of the sanitized text is
  strictly greater than the configured maximum depth.
\<close>

theorem depth_score_and_limit:
  "calculateQueryDepth q = running_maximum q
   \<and> calculateQueryDepth ''{ a { b { c } } }'' = 3
   \<and> ((\<exists>d lim. validateQueryConstraints q cfg
                   = Inl (McpError InvalidParams (DepthExceeded d lim)))
        = (\<not> real (calculateQueryComplexity (sanitizeQuery q)) > maxComplexity cfg
           \<and> real_of_int (calculateQueryDepth (sanitizeQuery q)) > maxDepth cfg))
   \<and> (validateQueryConstraints q cfg
          = Inl (McpError InvalidParams
                   (DepthExceeded (calculateQueryDepth (sanitizeQuery q)) (maxDepth cfg))))
        = (\<not> real (calculateQueryComplexity (sanitizeQuery q)) > maxComplexity cfg
           \<and> real_of_int (calculateQueryDepth (sanitizeQuery q)) > maxDepth cfg)"
proof -
  have running: "calculateQueryDepth q = running_maximum q"
    by (rule depth_eq_running_maximum)
  have example: "calculateQueryDepth ''{ a { b { c } } }'' = 3"
    by code_simp
  have some: "(\<exists>d lim. validateQueryConstraints q cfg
                          = Inl (McpError InvalidParams (DepthExceeded d lim)))
        = (\<not> real (calculateQueryComplexity (sanitizeQuery q)) > maxComplexity cfg
           \<and> real_of_int (calculateQueryDepth (sanitizeQuery q)) > maxDepth cfg)"
    by (auto simp: validate_cases split: option.splits)
  have this_one: "(validateQueryConstraints q cfg
          = Inl (McpError InvalidParams
                   (DepthExceeded (calculateQueryDepth (sanitizeQuery q)) (maxDepth cfg))))
        = (\<not> real (calculateQueryComplexity (sanitizeQuery q)) > maxComplexity cfg
           \<and> real_of_int (calculateQueryDepth (sanitizeQuery q)) > maxDepth cfg)"
    by (auto simp: validate_cases split: option.splits)
  from running example some this_one show ?thesis by blast
qed

theorem depth_score_and_limit_witness:
  "running_maximum ''}}{'' = 0
   \<and> validateQueryConstraints ''{ a { b { c } } }'' (limits 2 100 [])
       = Inl (McpError InvalidParams (DepthExceeded 3 2))"
proof -
  let ?q = "''{ a { b { c } } }''"
  have unmatched: "calculateQueryDepth ''}}{'' = 0" by code_simp
  have san: "sanitizeQuery ?q = ?q" by code_simp
  have depth: "calculateQueryDepth ?q = 3" by code_simp
  have score: "calculateQueryComplexity ?q = 2" by code_simp
  have lim: "maxDepth (limits 2 100 []) = 2" "maxComplexity (limits 2 100 []) = 100"
    by (simp_all add: limits_def)
  from depth_score_and_limit[of "''}}{''" "limits 2 100 []"] unmatched
  have "running_maximum ''}}{'' = 0" by simp
  moreover have "\<not> real (calculateQueryComplexity (sanitizeQuery ?q)) > maxComplexity (limits 2 100 [])
      \<and> real_of_int (calculateQueryDepth (sanitizeQuery ?q)) > maxDepth (limits 2 100 [])"
    by (simp add: san score depth lim)
  with depth_score_and_limit[of ?q "limits 2 100 []"]
  have "validateQueryConstraints ?q (limits 2 100 [])
      = Inl (McpError InvalidParams
               (DepthExceeded (calculateQueryDepth (sanitizeQuery ?q)) (maxDepth (limits 2 100 []))))"
    by blast
  then have "validateQueryConstraints ?q (limits 2 100 [])
      = Inl (McpError InvalidParams (DepthExceeded 3 2))"
    by (simp only: san depth lim)
  ultimately show ?thesis by blast
qed

text \<open>
  C7, as the claim states it, fails. The comment patterns are applied in one pass, and
  removing a block comment can bring the two halves of another one together: in
  \<open>//**/**/\<close> the comment \<open>/**/\<close> in the middle is removed, what is left is \<open>/**/\<close>, and a
  second sanitization removes that too.
\<close>

theorem sanitize_twice_counterexample:
  "sanitizeQuery ''//**/**/'' = ''/**/''
   \<and> sanitizeQuery (sanitizeQuery ''//**/**/'') = []
   \<and> sanitizeQuery (sanitizeQuery ''//**/**/'') \<noteq> sanitizeQuery ''//**/**/''"
  by code_simp

text \<open>
  C7, amended. Sanitizing a second time changes nothing exactly when the sanitized text
  holds no block comment for the first pattern to remove; the other three steps (line
  comments, white space, trimming) never change a sanitized text. In particular
  sanitization is idempotent on every input in which \<open>/*\<close> does not occur.
\<close>

theorem sanitize_twice:
  "(sanitizeQuery (sanitizeQuery s) = sanitizeQuery s)
     = (strip_block_comments (sanitizeQuery s) = sanitizeQuery s)
   \<and> trim (collapse_whitespace (strip_line_comments (sanitizeQuery s))) = sanitizeQuery s
   \<and> (\<not> sublist ''/*'' s \<longrightarrow> sanitizeQuery (sanitizeQuery s) = sanitizeQuery s)"
proof -
  have tail: "trim (collapse_whitespace (strip_line_comments (sanitizeQuery s))) = sanitizeQuery s"
    by (rule sanitize_tail_fixed)
  have "sanitizeQuery (sanitizeQuery s) = sanitizeQuery s"
    if "strip_block_comments (sanitizeQuery s) = sanitizeQuery s"
  proof -
    have "sanitizeQuery (sanitizeQuery s) =
          trim (collapse_whitespace (strip_line_comments (sanitizeQuery s)))"
      using that by (simp add: sanitizeQuery_def[of "sanitizeQuery s"])
    then show ?thesis by (simp only: tail)
  qed
  moreover have "strip_block_comments (sanitizeQuery s) = sanitizeQuery s"
    if a: "sanitizeQuery (sanitizeQuery s) = sanitizeQuery s"
  proof -
    have "length (sanitizeQuery (sanitizeQuery s)) \<le> length (strip_block_comments (sanitizeQuery s))"
      by (rule length_sanitize)
    with a have "length (sanitizeQuery s) \<le> length (strip_block_comments (sanitizeQuery s))"
      by simp
    with length_strip_block[of "sanitizeQuery s"]
    have "length (strip_block_comments (sanitizeQuery s)) = length (sanitizeQuery s)"
      by linarith
    then show ?thesis by (rule strip_block_fixed)
  qed
  ultimately show ?thesis using tail sanitized_fixed_no_opener[of s] by blast
qed

theorem sanitize_twice_witness:
  "sanitizeQuery (''  a /* x */  b # c'' @ [CHR 0x0A] @ '' d  '') = ''a b d''
   \<and> sanitizeQuery (sanitizeQuery (''  a /* x */  b # c'' @ [CHR 0x0A] @ '' d  ''))
       = sanitizeQuery (''  a /* x */  b # c'' @ [CHR 0x0A] @ '' d  '')"
proof -
  let ?s = "''  a /* x */  b # c'' @ [CHR 0x0A] @ '' d  ''"
  have val: "sanitizeQuery ?s = ''a b d''" by code_simp
  have "strip_block_comments ''a b d'' = ''a b d''" by code_simp
  then have "strip_block_comments (sanitizeQuery ?s) = sanitizeQuery ?s"
    by (simp only: val)
  with sanitize_twice[of ?s]
  have "sanitizeQuery (sanitizeQuery ?s) = sanitizeQuery ?s" by blast
  with val show ?thesis by blast
qed

text \<open>
  C8. When the complexity and depth checks have passed, \<open>validateQueryConstraints\<close> rejects
  with a disabled-resolver error exactly when some disabled name, lower-cased, occurs as a
  substring of the lower-cased sanitized text, anywhere in it; the error names the first
  such entry of the list.
\<close>

theorem disabled_resolver_rejection:
  assumes "\<not> real (calculateQueryComplexity (sanitizeQuery q)) > maxComplexity cfg"
      and "\<not> real_of_int (calculateQueryDepth (sanitizeQuery q)) > maxDepth cfg"
  shows "((\<exists>r. validateQueryConstraints q cfg = Inl (McpError InvalidParams (ResolverDisabled r)))
          = (\<exists>r \<in> set (disabledResolvers cfg).
               sublist (toLowerCase r) (toLowerCase (sanitizeQuery q))))
         \<and> validateQueryConstraints q cfg =
             (case find (\<lambda>r. sublist (toLowerCase r) (toLowerCase (sanitizeQuery q)))
                        (disabledResolvers cfg) of
                Some r \<Rightarrow> Inl (McpError InvalidParams (ResolverDisabled r))
              | None \<Rightarrow> Inr ())"
proof -
  let ?P = "\<lambda>r. sublist (toLowerCase r) (toLowerCase (sanitizeQuery q))"
  have v: "validateQueryConstraints q cfg =
             (case find ?P (disabledResolvers cfg) of
                Some r \<Rightarrow> Inl (McpError InvalidParams (ResolverDisabled r))
              | None \<Rightarrow> Inr ())"
    using assms by (simp add: validate_cases)
  have "(\<exists>r. validateQueryConstraints q cfg = Inl (McpError InvalidParams (ResolverDisabled r)))
          = (find ?P (disabledResolvers cfg) \<noteq> None)"
    by (auto simp: v split: option.splits)
  also have "\<dots> = (\<exists>r \<in> set (disabledResolvers cfg). ?P r)"
    by (auto simp: find_None_iff)
  finally show ?thesis using v by blast
qed

theorem disabled_resolver_rejection_witness:
  "\<not> real (calculateQueryComplexity (sanitizeQuery ''{ countryside { name } }''))
       > maxComplexity (limits 10 100 [''admin'', ''Country''])
   \<and> \<not> real_of_int (calculateQueryDepth (sanitizeQuery ''{ countryside { name } }''))
       > maxDepth (limits 10 100 [''admin'', ''Country''])
   \<and> validateQueryConstraints ''{ countryside { name } }'' (limits 10 100 [''admin'', ''Country''])
       = Inl (McpError InvalidParams (ResolverDisabled ''Country''))"
proof -
  let ?q = "''{ countryside { name } }''"
  let ?cfg = "limits 10 100 [''admin'', ''Country'']"
  have san: "sanitizeQuery ?q = ?q" by code_simp
  have score: "calculateQueryComplexity ?q = 1" by code_simp
  have depth: "calculateQueryDepth ?q = 2" by code_simp
  have lim: "maxDepth ?cfg = 10" "maxComplexity ?cfg = 100"
       "disabledResolvers ?cfg = [''admin'', ''Country'']"
    by (simp_all add: limits_def)
  have h1: "\<not> real (calculateQueryComplexity (sanitizeQuery ?q)) > maxComplexity ?cfg"
    by (simp add: san score lim)
  have h2: "\<not> real_of_int (calculateQueryDepth (sanitizeQuery ?q)) > maxDepth ?cfg"
    by (simp add: san depth lim)
  have found: "find (\<lambda>r. sublist (toLowerCase r) (toLowerCase ?q)) [''admin'', ''Country'']
                 = Some ''Country''"
    by code_simp
  from disabled_resolver_rejection[OF h1 h2]
  have "validateQueryConstraints ?q ?cfg = Inl (McpError InvalidParams (ResolverDisabled ''Country''))"
    by (simp only: san lim found option.case)
  with h1 h2 show ?thesis by blast
qed

section \<open>Properties of the tool catalog\<close>

lemma field_loop_filter:
  "field_loop t disabled fs tools =
     tools @ map (field_tool t) (filter (\<lambda>f. field_name f \<notin> set disabled) fs)"
  by (induction fs arbitrary: tools) simp_all

lemma field_tool_name: "name (field_tool t f) = op_word t @ ''_'' @ field_name f"
  by (simp add: field_tool_def split_def Let_def)

lemma field_tool_resolver:
  "r_type (resolver (field_tool t f)) = t \<and> fieldName (resolver (field_tool t f)) = field_name f"
  by (simp add: field_tool_def split_def Let_def)

text \<open>An introspection result for the examples: three query fields and one mutation field.\<close>

definition named_type :: "kind \<Rightarrow> string \<Rightarrow> type_ref" where
  "named_type k n = Named k (Some n) None"

definition simple_field :: "string \<Rightarrow> arg list \<Rightarrow> type_ref \<Rightarrow> gql_field" where
  "simple_field n declared t =
     \<lparr>field_name = n, field_description = None, field_args = declared, field_type = t\<rparr>"

definition code_arg :: arg where
  "code_arg = \<lparr>arg_name = ''code'', arg_type = NON_NULL (named_type SCALAR ''ID''),
               arg_description = None\<rparr>"

definition countries_schema :: schema where
  "countries_schema =
     \<lparr>queryType = Some ''Query'',
      mutationType = Some ''Mutation'',
      types =
        [\<lparr>gt_name = ''Country'', gt_kind = OBJECT,
          gt_fields = Some [simple_field ''code'' [] (NON_NULL (named_type SCALAR ''ID'')),
                            simple_field ''name'' [] (named_type SCALAR ''String''),
                            simple_field ''continent'' [] (named_type OBJECT ''Continent'')]\<rparr>,
         \<lparr>gt_name = ''Query'', gt_kind = OBJECT,
          gt_fields = Some [simple_field ''countries'' [] (LIST (named_type OBJECT ''Country'')),
                            simple_field ''country'' [code_arg] (named_type OBJECT ''Country''),
                            simple_field ''continents'' [] (LIST (named_type OBJECT ''Continent''))]\<rparr>,
         \<lparr>gt_name = ''Mutation'', gt_kind = OBJECT,
          gt_fields = Some [simple_field ''addCountry'' [code_arg] (named_type OBJECT ''Country'')]\<rparr>,
         \<lparr>gt_name = ''ID'', gt_kind = SCALAR, gt_fields = None\<rparr>]\<rparr>"

text \<open>
  C9. For every introspection schema and every list of disabled resolvers,
  \<open>createMCPToolsFromSchema\<close> produces, in order, one tool for each field of the root query
  type and then one for each field of the root mutation type, leaving out exactly the
  fields whose name is an element of the disabled list (equality of names, so the case of
  the letters counts); the number of tools is the number of root fields minus the number of
  those left out; a tool is named \<open>query_\<close> or \<open>mutation_\<close> followed by the field name,
  according to its root type.
\<close>

theorem tool_catalog:
  "createMCPToolsFromSchema (Some c) sd =
     map (field_tool Query)
       (filter (\<lambda>f. field_name f \<notin> set (disabledResolvers c)) (root_fields sd (queryType sd)))
     @ map (field_tool Mutation)
       (filter (\<lambda>f. field_name f \<notin> set (disabledResolvers c)) (root_fields sd (mutationType sd)))
   \<and> length (createMCPToolsFromSchema (Some c) sd) =
       length (root_fields sd (queryType sd)) + length (root_fields sd (mutationType sd))
       - length (filter (\<lambda>f. field_name f \<in> set (disabledResolvers c))
                   (root_fields sd (queryType sd) @ root_fields sd (mutationType sd)))
   \<and> name (field_tool Query f) = ''query_'' @ field_name f
   \<and> name (field_tool Mutation f) = ''mutation_'' @ field_name f
   \<and> r_type (resolver (field_tool t f)) = t
   \<and> fieldName (resolver (field_tool t f)) = field_name f"
proof -
  let ?D = "\<lambda>f. field_name f \<in> set (disabledResolvers c)"
  let ?q = "root_fields sd (queryType sd)"
  let ?m = "root_fields sd (mutationType sd)"
  have tools: "createMCPToolsFromSchema (Some c) sd =
      map (field_tool Query) (filter (\<lambda>f. \<not> ?D f) ?q)
      @ map (field_tool Mutation) (filter (\<lambda>f. \<not> ?D f) ?m)"
    by (simp add: createMCPToolsFromSchema_def Let_def field_loop_filter)
  have split: "length (filter (\<lambda>f. \<not> ?D f) xs) + length (filter ?D xs) = length xs" for xs
    using sum_length_filter_compl[of ?D xs] by simp
  have "length (createMCPToolsFromSchema (Some c) sd) + length (filter ?D (?q @ ?m))
          = length ?q + length ?m"
    using split[of ?q] split[of ?m] by (simp add: tools)
  then have count: "length (createMCPToolsFromSchema (Some c) sd)
          = length ?q + length ?m - length (filter ?D (?q @ ?m))"
    by linarith
  have names: "name (field_tool Query f) = ''query_'' @ field_name f"
      "name (field_tool Mutation f) = ''mutation_'' @ field_name f"
    by (simp_all add: field_tool_name op_word_def)
  from tools count names field_tool_resolver[of t f] show ?thesis by blast
qed

theorem tool_catalog_witness:
  "map name (createMCPToolsFromSchema
               (Some (limits 10 100 [''country'', ''Continents''])) countries_schema)
     = [''query_countries'', ''query_continents'', ''mutation_addCountry'']
   \<and> length (createMCPToolsFromSchema
               (Some (limits 10 100 [''country'', ''Continents''])) countries_schema) = 4 - 1"
proof -
  let ?c = "limits 10 100 [''country'', ''Continents'']"
  have d: "disabledResolvers ?c = [''country'', ''Continents'']" by (simp add: limits_def)
  have q: "root_fields countries_schema (queryType countries_schema) =
             [simple_field ''countries'' [] (LIST (named_type OBJECT ''Country'')),
              simple_field ''country'' [code_arg] (named_type OBJECT ''Country''),
              simple_field ''continents'' [] (LIST (named_type OBJECT ''Continent''))]"
    by (simp add: root_fields_def countries_schema_def)
  have m: "root_fields countries_schema (mutationType countries_schema) =
             [simple_field ''addCountry'' [code_arg] (named_type OBJECT ''Country'')]"
    by (simp add: root_fields_def countries_schema_def)
  note inst = tool_catalog[of ?c countries_schema]
  from inst have "map name (createMCPToolsFromSchema (Some ?c) countries_schema)
      = [''query_countries'', ''query_continents'', ''mutation_addCountry'']"
    by (simp add: d q m simple_field_def field_tool_name op_word_def)
  moreover from inst have "length (createMCPToolsFromSchema (Some ?c) countries_schema) = 4 - 1"
    by (simp add: d q m simple_field_def)
  ultimately show ?thesis by blast
qed

section \<open>Properties of the resolver handler\<close>

text \<open>The GraphQL type that the loop declares for the variable of an entry.\<close>

definition declared_type :: "tool \<Rightarrow> string \<Rightarrow> string" where
  "declared_type t key =
     (case find (\<lambda>a. arg_name a = key) (args (resolver t)) of
        Some a \<Rightarrow> getGraphQLTypeString (arg_type a)
      | None \<Rightarrow> ''String'')"

lemma entry_loop_maps:
  "entry_loop t es argPairs varPairs variables =
     (argPairs @ map (\<lambda>(k, v). k @ '': $'' @ k) es,
      varPairs @ map (\<lambda>(k, v). ''$'' @ k @ '': '' @ declared_type t k) es,
      foldl (\<lambda>acc (k, v). obj_assign acc k v) variables es)"
  by (induction es arbitrary: argPairs varPairs variables)
     (auto simp: declared_type_def Let_def)

lemma map_of_obj_set: "map_of (obj_set kvs k v) = (map_of kvs)(k \<mapsto> v)"
  by (induction kvs) auto

lemma map_of_entries_other:
  "key \<notin> fst ` set es \<Longrightarrow>
   map_of (foldl (\<lambda>acc (k, v). obj_set acc k v) vars es) key = map_of vars key"
  by (induction es arbitrary: vars) (auto simp: map_of_obj_set)

lemma map_of_entries:
  "distinct (map fst es) \<Longrightarrow> (key, v) \<in> set es \<Longrightarrow>
   map_of (foldl (\<lambda>acc (k, v). obj_set acc k v) vars es) key = Some v"
proof (induction es arbitrary: vars)
  case Nil
  then show ?case by simp
next
  case (Cons e es)
  show ?case
  proof (cases "e = (key, v)")
    case True
    with Cons.prems have "key \<notin> fst ` set es" by auto
    with True show ?thesis by (simp add: map_of_entries_other map_of_obj_set)
  next
    case False
    with Cons.prems have "(key, v) \<in> set es" "distinct (map fst es)" by auto
    then show ?thesis by (simp add: Cons.IH)
  qed
qed

text \<open>The same for the assignments of the loop, which store nothing under \<open>__proto__\<close>.\<close>

lemma map_of_obj_assign:
  "map_of (obj_assign kvs k v) = (if k = ''__proto__'' then map_of kvs else (map_of kvs)(k \<mapsto> v))"
  by (simp add: obj_assign_def map_of_obj_set)



lemma map_of_assigned_proto:
  "map_of vars ''__proto__'' = None \<Longrightarrow>
   map_of (foldl (\<lambda>acc (k, v). obj_assign acc k v) vars es) ''__proto__'' = None"
  by (induction es arbitrary: vars) (auto simp: map_of_obj_assign)

lemma sublist_join: "x \<in> set xs \<Longrightarrow> sublist x (join sep xs)"
proof (induction sep xs rule: join.induct)
  case (1 sep)
  then show ?case by simp
next
  case (2 sep y)
  then show ?case by simp
next
  case (3 sep y z zs)
  show ?case
  proof (cases "x = y")
    case True
    have "sublist x ([] @ x @ (sep @ join sep (z # zs)))"
      by (rule sublist_between) simp
    with True show ?thesis by simp
  next
    case False
    with 3 have "sublist x (join sep (z # zs))" by simp
    then have "sublist x ((y @ sep) @ join sep (z # zs) @ [])"
      by (rule sublist_between)
    then show ?thesis by simp
  qed
qed

text \<open>The parts of the query text.\<close>

lemma build_query_text:
  "fst (build_query s t (Some (e # es))) =
     (op_word (r_type (resolver t)) @ '' ('')
     @ join '', '' (map (\<lambda>(k, v). ''$'' @ k @ '': '' @ declared_type t k) (e # es))
     @ ('')'' @ '' {'' @ NL @ ''    '' @ fieldName (resolver t)
        @ ''('' @ join '', '' (map (\<lambda>(k, v). k @ '': $'' @ k) (e # es)) @ '')''
        @ getBasicSelectionSet s (returnType (resolver t)) @ NL @ ''  }'')"
  by (simp add: build_query_def entry_loop_maps Let_def split_def)



lemma handler_configured:
  "client s = Some cl \<Longrightarrow> config s = Some cfg \<Longrightarrow>
   handleGraphQLResolver w s t a =
     (case validateQueryConstraints (fst (build_query s t a)) cfg of
        Inl e \<Rightarrow> Inl e
      | Inr _ \<Rightarrow>
          (case request w cl (fst (build_query s t a)) (snd (build_query s t a)) of
             Inr result \<Rightarrow> Inr \<lparr>content = Text (success_text s t result), isError = False\<rparr>
           | Inl err \<Rightarrow>
               Inr \<lparr>content = Text (failure_text t (error_message err) (fst (build_query s t a))),
                    isError = True\<rparr>))"
  by (simp add: handleGraphQLResolver_def split_def Let_def)

text \<open>A configured state and a tool for the examples: the \<open>country\<close> query of the schema
  above, with its one declared argument \<open>code\<close>.\<close>

definition countries_client :: graphql_client where
  "countries_client = \<lparr>c_endpoint = ''https://countries.trevorblades.com/'', c_headers = []\<rparr>"

definition configured_state :: server_state where
  "configured_state =
     \<lparr>client = Some countries_client,
      endpoint = Some ''https://countries.trevorblades.com/'',
      config = Some (limits 10 100 []),
      cachedSchema = None,
      schemaTimestamp = 0,
      dynamicTools = createMCPToolsFromSchema (Some (limits 10 100 [])) countries_schema\<rparr>"





text \<open>Worlds for the examples: an environment without variables, a URL test that accepts
  what starts with \<open>https://\<close>, and a given behaviour of the network.\<close>

definition no_env :: process_env where
  "no_env =
     \<lparr>GRAPHQL_ENDPOINT = None, GRAPHQL_TIMEOUT = None, GRAPHQL_MAX_DEPTH = None,
      GRAPHQL_MAX_COMPLEXITY = None, GRAPHQL_DISABLED_RESOLVERS = None,
      GRAPHQL_HEADERS = None, GRAPHQL_AUTH_TOKEN = None, GRAPHQL_API_KEY = None\<rparr>"

definition world_with ::
  "process_env \<Rightarrow> (graphql_client \<Rightarrow> string \<Rightarrow> (string \<times> json) list \<Rightarrow> thrown + response)
   \<Rightarrow> world" where
  "world_with e net =
     \<lparr>env = e, JSON_parse = (\<lambda>_. None), is_url = prefix ''https://'', request = net,
      introspectionQuery = ''query IntrospectionQuery { __schema { types { name } } }'',
      now = 1000\<rparr>"

definition countries_tool :: tool where
  "countries_tool =
     field_tool Query (simple_field ''countries'' [] (LIST (named_type OBJECT ''Country'')))"

lemma countries_query:
  "fst (build_query configured_state countries_tool None)
     = ''query  {'' @ NL @ ''    countries { id name code title }'' @ NL @ ''  }''"
  by (simp add: build_query_def countries_tool_def field_tool_def
        simple_field_def named_type_def split_def Let_def op_word_def
        show_name_def or_else_def getBasicSelectionSet_def schema_selection_def
        configured_state_def scalarTypes_def commonFields_def)

lemma countries_query_valid:
  "validateQueryConstraints
     (''query  {'' @ NL @ ''    countries { id name code title }'' @ NL @ ''  }'')
     (limits 10 100 []) = Inr ()"
proof -
  let ?q = "''query  {'' @ NL @ ''    countries { id name code title }'' @ NL @ ''  }''"
  have san: "sanitizeQuery ?q = ''query { countries { id name code title } }''"
    unfolding NL_def by code_simp
  have score: "calculateQueryComplexity ''query { countries { id name code title } }'' = 2"
    by code_simp
  have depth: "calculateQueryDepth ''query { countries { id name code title } }'' = 2"
    by code_simp
  show ?thesis unfolding validate_cases san score depth by (simp add: limits_def)
qed

text \<open>
  C4, as the claim states it, fails in the success branch: the text of a success result
  is made of the operation kind, the field name, the endpoint and the response payload,
  and the query text is not in it. Here the \<open>countries\<close> tool is called without arguments
  and the endpoint answers with the payload \<open>{}\<close>.
\<close>

theorem success_text_counterexample:
  "handleGraphQLResolver
       (world_with no_env (\<lambda>c q vs. Inr \<lparr>as_schema = None, rendered = ''{}''\<rparr>))
       configured_state countries_tool None
     = Inr \<lparr>content = Text (ok_mark @ '' Query executed: countries'' @ NL @ NL
                              @ ''Endpoint: https://countries.trevorblades.com/'' @ NL @ NL
                              @ ''Result:'' @ NL @ ''{}''),
            isError = False\<rparr>
   \<and> fst (build_query configured_state countries_tool None)
       = ''query  {'' @ NL @ ''    countries { id name code title }'' @ NL @ ''  }''
   \<and> \<not> includes_str (ok_mark @ '' Query executed: countries'' @ NL @ NL
                        @ ''Endpoint: https://countries.trevorblades.com/'' @ NL @ NL
                        @ ''Result:'' @ NL @ ''{}'')
                     (''query  {'' @ NL @ ''    countries { id name code title }'' @ NL @ ''  }'')"
proof -
  have h1: "client configured_state = Some countries_client"
    and h2: "config configured_state = Some (limits 10 100 [])"
    and ep: "endpoint configured_state = Some ''https://countries.trevorblades.com/''"
    by (simp_all add: configured_state_def)
  have res: "r_type (resolver countries_tool) = Query"
       "fieldName (resolver countries_tool) = ''countries''"
    by (simp_all add: countries_tool_def field_tool_def simple_field_def split_def Let_def)
  let ?w = "world_with no_env (\<lambda>c q vs. Inr \<lparr>as_schema = None, rendered = ''{}''\<rparr>)"
  have valid: "validateQueryConstraints (fst (build_query configured_state countries_tool None))
                 (limits 10 100 []) = Inr ()"
    by (simp only: countries_query countries_query_valid)
  have answer: "request ?w countries_client
                  (fst (build_query configured_state countries_tool None))
                  (snd (build_query configured_state countries_tool None))
                = Inr \<lparr>as_schema = None, rendered = ''{}''\<rparr>"
    by (simp add: world_with_def)
  have "handleGraphQLResolver ?w configured_state countries_tool None
     = Inr \<lparr>content = Text (success_text configured_state countries_tool
                                \<lparr>as_schema = None, rendered = ''{}''\<rparr>),
            isError = False\<rparr>"
    by (simp add: handler_configured[OF h1 h2] valid answer)
  then have "handleGraphQLResolver ?w configured_state countries_tool None
     = Inr \<lparr>content = Text (ok_mark @ '' Query executed: countries'' @ NL @ NL
                              @ ''Endpoint: https://countries.trevorblades.com/'' @ NL @ NL
                              @ ''Result:'' @ NL @ ''{}''),
            isError = False\<rparr>"
    by (simp add: success_text_def res ep op_title_def show_name_def)
  moreover have "\<not> includes_str (ok_mark @ '' Query executed: countries'' @ NL @ NL
                        @ ''Endpoint: https://countries.trevorblades.com/'' @ NL @ NL
                        @ ''Result:'' @ NL @ ''{}'')
                     (''query  {'' @ NL @ ''    countries { id name code title }'' @ NL @ ''  }'')"
    unfolding NL_def ok_mark_def by code_simp
  ultimately show ?thesis using countries_query by blast
qed

text \<open>
  C4, amended. In a configured state a call of a dynamic tool whose query passes the
  validation returns a result in both outcomes of the request. When the request throws,
  the failure result carries the error message and, at its end, the attempted query text.
  When the request returns, the success result carries the operation kind, the field
  name, the endpoint and, at its end, the response payload; the handler puts no query text
  into it. A query that fails the validation gives no result: the validation error is
  thrown.
\<close>

theorem call_result_texts:
  assumes "client s = Some cl" and "config s = Some cfg"
  shows "(validateQueryConstraints (fst (build_query s t a)) cfg = Inl e
            \<longrightarrow> handleGraphQLResolver w s t a = Inl e)
         \<and> (validateQueryConstraints (fst (build_query s t a)) cfg = Inr ()
            \<longrightarrow> request w cl (fst (build_query s t a)) (snd (build_query s t a)) = Inl err
            \<longrightarrow> handleGraphQLResolver w s t a =
                 Inr \<lparr>content = Text (fail_mark @ '' '' @ op_title (r_type (resolver t))
                                        @ '' failed: '' @ fieldName (resolver t) @ NL @ NL
                                        @ ''Error: '' @ error_message err @ NL @ NL
                                        @ ''Query:'' @ NL @ fst (build_query s t a)),
                      isError = True\<rparr>)
         \<and> (validateQueryConstraints (fst (build_query s t a)) cfg = Inr ()
            \<longrightarrow> request w cl (fst (build_query s t a)) (snd (build_query s t a)) = Inr result
            \<longrightarrow> handleGraphQLResolver w s t a =
                 Inr \<lparr>content = Text (ok_mark @ '' '' @ op_title (r_type (resolver t))
                                        @ '' executed: '' @ fieldName (resolver t) @ NL @ NL
                                        @ ''Endpoint: '' @ show_name (endpoint s) @ NL @ NL
                                        @ ''Result:'' @ NL @ rendered result),
                      isError = False\<rparr>)"
  by (simp add: handler_configured[OF assms] success_text_def failure_text_def)

theorem call_result_texts_witness:
  "handleGraphQLResolver
       (world_with no_env (\<lambda>c q vs. Inl (ErrorObject ''Cannot query field id on type Country'')))
       configured_state countries_tool None
     = Inr \<lparr>content = Text (fail_mark @ '' Query failed: countries'' @ NL @ NL
                              @ ''Error: Cannot query field id on type Country'' @ NL @ NL
                              @ ''Query:'' @ NL
                              @ ''query  {'' @ NL @ ''    countries { id name code title }''
                              @ NL @ ''  }''),
            isError = True\<rparr>"
proof -
  let ?w = "world_with no_env (\<lambda>c q vs. Inl (ErrorObject ''Cannot query field id on type Country''))"
  have h1: "client configured_state = Some countries_client"
    and h2: "config configured_state = Some (limits 10 100 [])"
    by (simp_all add: configured_state_def)
  have res: "r_type (resolver countries_tool) = Query"
       "fieldName (resolver countries_tool) = ''countries''"
    by (simp_all add: countries_tool_def field_tool_def simple_field_def split_def Let_def)
  have valid: "validateQueryConstraints (fst (build_query configured_state countries_tool None))
                 (limits 10 100 []) = Inr ()"
    by (simp only: countries_query countries_query_valid)
  have thrown: "request ?w countries_client
                  (fst (build_query configured_state countries_tool None))
                  (snd (build_query configured_state countries_tool None))
                = Inl (ErrorObject ''Cannot query field id on type Country'')"
    by (simp add: world_with_def)
  from call_result_texts[OF h1 h2, of countries_tool None _ ?w
         "ErrorObject ''Cannot query field id on type Country''"] valid thrown
  have "handleGraphQLResolver ?w configured_state countries_tool None =
          Inr \<lparr>content = Text (fail_mark @ '' '' @ op_title (r_type (resolver countries_tool))
                                 @ '' failed: '' @ fieldName (resolver countries_tool) @ NL @ NL
                                 @ ''Error: ''
                                 @ error_message (ErrorObject ''Cannot query field id on type Country'')
                                 @ NL @ NL @ ''Query:'' @ NL
                                 @ fst (build_query configured_state countries_tool None)),
               isError = True\<rparr>"
    by blast
  then show ?thesis
    by (simp add: res op_title_def error_message_def countries_query)
qed

section \<open>Properties of configuration and dispatch\<close>

lemma failed_configure_state:
  "fst (handleConfigureGraphQL w a s) = Inl e \<Longrightarrow> snd (handleConfigureGraphQL w a s) = s"
  by (auto simp: handleConfigureGraphQL_def Let_def split: option.splits sum.splits)

lemma truthy_Some: "truthy x = Some v \<Longrightarrow> x = Some v"
  by (auto simp: truthy_def split: option.splits if_splits)

lemma successful_configure:
  assumes "handleConfigureGraphQL w a s = (Inr res, s')"
  shows "\<exists>envConfig pa ep x.
           loadEnvironmentConfig (JSON_parse w) (env w) = Some envConfig
           \<and> ConfigureArgsSchema_parse (is_url w) a = Some pa
           \<and> truthy (cfg_endpoint (merge_config envConfig pa)) = Some ep
           \<and> request w \<lparr>c_endpoint = ep, c_headers = cfg_headers (merge_config envConfig pa)\<rparr>
                 ''{ __typename }'' [] = Inr x
           \<and> s' = introspect_step w
                      \<lparr>c_endpoint = ep, c_headers = cfg_headers (merge_config envConfig pa)\<rparr>
                      (s\<lparr>client := Some \<lparr>c_endpoint = ep,
                                          c_headers = cfg_headers (merge_config envConfig pa)\<rparr>,
                         endpoint := cfg_endpoint (merge_config envConfig pa),
                         config := Some (merge_config envConfig pa),
                         cachedSchema := None, schemaTimestamp := 0, dynamicTools := []\<rparr>)
           \<and> res = \<lparr>content = ConfigureSummary ep (maxDepth (merge_config envConfig pa))
                                 (maxComplexity (merge_config envConfig pa))
                                 (disabledResolvers (merge_config envConfig pa))
                                 (timeout (merge_config envConfig pa))
                                 (length (dynamicTools s')),
                     isError = False\<rparr>"
  using assms
  by (auto simp: handleConfigureGraphQL_def Let_def split: option.splits sum.splits)

lemma introspect_step_tools:
  "dynamicTools s = [] \<Longrightarrow>
   dynamicTools (introspect_step w cl s) =
     (case request w cl (introspectionQuery w) [] of
        Inl err \<Rightarrow> []
      | Inr resp \<Rightarrow>
          (case as_schema resp of
             None \<Rightarrow> []
           | Some sd \<Rightarrow> createMCPToolsFromSchema (config s) sd))"
  by (simp add: introspect_step_def Let_def split: sum.splits option.splits)

lemma introspect_step_keeps:
  "client (introspect_step w cl s) = client s \<and> config (introspect_step w cl s) = config s
   \<and> endpoint (introspect_step w cl s) = endpoint s"
  by (simp add: introspect_step_def Let_def split: sum.splits option.splits)

text \<open>The state after the assignments and the introspection, field by field; nothing of
  the state before the call is left in it.\<close>

lemma introspect_step_fresh:
  "introspect_step w cl
     (s\<lparr>client := c, endpoint := e, config := Some cfg,
        cachedSchema := None, schemaTimestamp := 0, dynamicTools := []\<rparr>)
   = \<lparr>client = c, endpoint = e, config = Some cfg,
      cachedSchema = (case request w cl (introspectionQuery w) [] of
                        Inl err \<Rightarrow> None | Inr resp \<Rightarrow> Some resp),
      schemaTimestamp = (case request w cl (introspectionQuery w) [] of
                           Inl err \<Rightarrow> 0 | Inr resp \<Rightarrow> now w),
      dynamicTools = (case request w cl (introspectionQuery w) [] of
                        Inl err \<Rightarrow> []
                      | Inr resp \<Rightarrow>
                          (case as_schema resp of
                             None \<Rightarrow> []
                           | Some sd \<Rightarrow> createMCPToolsFromSchema (Some cfg) sd))\<rparr>"
  by (cases s) (simp add: introspect_step_def Let_def split: sum.splits option.splits)

text \<open>
  For the examples: a network on which only the countries endpoint answers, with the
  schema above to the introspection query and with an empty payload to anything else; and
  the arguments of a configure call that gives nothing but an endpoint.
\<close>

definition countries_net ::
  "graphql_client \<Rightarrow> string \<Rightarrow> (string \<times> json) list \<Rightarrow> thrown + response" where
  "countries_net c q vs =
     (if c_endpoint c = ''https://countries.trevorblades.com/''
      then Inr \<lparr>as_schema =
                  (if q = ''query IntrospectionQuery { __schema { types { name } } }''
                   then Some countries_schema else None),
                rendered = ''{}''\<rparr>
      else Inl (ErrorObject ''getaddrinfo ENOTFOUND''))"

definition endpoint_only :: "string \<Rightarrow> partial_config" where
  "endpoint_only e = empty_arguments\<lparr>p_endpoint := Some e\<rparr>"

definition countries_state :: server_state where
  "countries_state =
     \<lparr>client = Some countries_client,
      endpoint = Some ''https://countries.trevorblades.com/'',
      config = Some (limits 10 100 []),
      cachedSchema = Some \<lparr>as_schema = Some countries_schema, rendered = ''{}''\<rparr>,
      schemaTimestamp = 1000,
      dynamicTools = createMCPToolsFromSchema (Some (limits 10 100 [])) countries_schema\<rparr>"

lemma parse_endpoint_only:
  "ConfigureArgsSchema_parse (prefix ''https://'') (endpoint_only e) =
     (if prefix ''https://'' e
      then Some \<lparr>a_endpoint = Some e, a_headers = None, a_timeout = 30000, a_maxDepth = 10,
                 a_maxComplexity = 100, a_disabledResolvers = []\<rparr>
      else None)"
  by (simp add: ConfigureArgsSchema_parse_def endpoint_only_def empty_arguments_def
        in_range_def or_default_def)

lemma no_env_config:
  "loadEnvironmentConfig (\<lambda>_. None) no_env = Some empty_arguments"
  by (simp add: loadEnvironmentConfig_def no_env_def empty_arguments_def truthy_def
        env_number_def spread_view_def)

lemma first_configure:
  "snd (handleConfigureGraphQL (world_with no_env countries_net)
          (endpoint_only ''https://countries.trevorblades.com/'') initial_state)
     = countries_state"
  by (simp add: handleConfigureGraphQL_def world_with_def parse_endpoint_only no_env_config
        merge_config_def empty_arguments_def truthy_def spread_def or_empty_def
        countries_net_def introspect_step_def initial_state_def countries_state_def
        countries_client_def limits_def Let_def)

lemma countries_state_tools:
  "map name (dynamicTools countries_state)
     = [''query_countries'', ''query_country'', ''query_continents'', ''mutation_addCountry'']"
  by (simp add: countries_state_def createMCPToolsFromSchema_def root_fields_def
        countries_schema_def limits_def simple_field_def field_tool_name op_word_def)

text \<open>
  C1, as the claim states it, fails. After a successful configuration of the countries
  endpoint (four dynamic tools), a configure call whose probe fails and a configure call
  whose endpoint is not a URL both throw before the state is touched: the client, the
  configuration and the four tools of the first configuration are still there, and the
  status reports \<open>configured\<close>.
\<close>

theorem failed_reconfigure_counterexample:
  "snd (handleConfigureGraphQL (world_with no_env countries_net)
          (endpoint_only ''https://countries.trevorblades.com/'') initial_state)
     = countries_state
   \<and> handleConfigureGraphQL (world_with no_env countries_net)
        (endpoint_only ''https://down.example/graphql'') countries_state
       = (Inl (McpError InternalError (ConnectFailed ''getaddrinfo ENOTFOUND'')), countries_state)
   \<and> handleConfigureGraphQL (world_with no_env countries_net)
        (endpoint_only ''not-a-url'') countries_state
       = (Inl ZodError, countries_state)
   \<and> map name (dynamicTools countries_state)
       = [''query_countries'', ''query_country'', ''query_continents'', ''mutation_addCountry'']
   \<and> configured (status_object (world_with no_env countries_net) countries_state)"
proof -
  have probe: "handleConfigureGraphQL (world_with no_env countries_net)
        (endpoint_only ''https://down.example/graphql'') countries_state
       = (Inl (McpError InternalError (ConnectFailed ''getaddrinfo ENOTFOUND'')), countries_state)"
    by (simp add: handleConfigureGraphQL_def world_with_def parse_endpoint_only no_env_config
          merge_config_def empty_arguments_def truthy_def spread_def or_empty_def
          countries_net_def error_message_def Let_def)
  have url: "handleConfigureGraphQL (world_with no_env countries_net)
        (endpoint_only ''not-a-url'') countries_state
       = (Inl ZodError, countries_state)"
    by (simp add: handleConfigureGraphQL_def world_with_def parse_endpoint_only no_env_config
          Let_def)
  have st: "configured (status_object (world_with no_env countries_net) countries_state)"
    by (simp add: status_object_def countries_state_def)
  from first_configure probe url countries_state_tools st show ?thesis by blast
qed

text \<open>
  C1, amended. A configure call that fails leaves the server state exactly as it was:
  after a prior successful configuration the stored client, configuration, cached schema
  and dynamic tools are all kept, and the status and the tool list are what they were.
  The call fails, in this order, when \<open>loadEnvironmentConfig\<close> throws, when the arguments
  do not parse (for instance because the endpoint is not a URL), when no endpoint
  resolves, and when the connectivity probe fails. The state is never a mixture of the
  old tools with the new configuration: a call that succeeds leaves a state that is built
  from this call alone. Its client is the client this call made and probed, for this
  call's endpoint and merged headers; its configuration is this call's merge of
  environment and arguments; its cached schema, time stamp and dynamic tools are those of
  this call's introspection request under that configuration, or none, zero and no tools
  when that request fails.
\<close>

theorem failed_configure_keeps_state:
  assumes "handleConfigureGraphQL w a s = (r, s')"
  shows "(\<forall>e. r = Inl e \<longrightarrow>
            s' = s \<and> status_object w' s' = status_object w' s \<and> listTools s' = listTools s)
         \<and> (loadEnvironmentConfig (JSON_parse w) (env w) = None \<longrightarrow> r = Inl TypeError)
         \<and> (\<forall>envConfig.
              loadEnvironmentConfig (JSON_parse w) (env w) = Some envConfig
              \<and> ConfigureArgsSchema_parse (is_url w) a = None
              \<longrightarrow> r = Inl ZodError)
         \<and> (\<forall>ep. p_endpoint a = Some ep \<and> \<not> is_url w ep
              \<longrightarrow> ConfigureArgsSchema_parse (is_url w) a = None)
         \<and> (\<forall>envConfig pa.
              loadEnvironmentConfig (JSON_parse w) (env w) = Some envConfig
              \<and> ConfigureArgsSchema_parse (is_url w) a = Some pa
              \<and> truthy (cfg_endpoint (merge_config envConfig pa)) = None
              \<longrightarrow> r = Inl (McpError InvalidParams EndpointRequired))
         \<and> (\<forall>envConfig pa ep err.
              loadEnvironmentConfig (JSON_parse w) (env w) = Some envConfig
              \<and> ConfigureArgsSchema_parse (is_url w) a = Some pa
              \<and> truthy (cfg_endpoint (merge_config envConfig pa)) = Some ep
              \<and> request w \<lparr>c_endpoint = ep,
                              c_headers = cfg_headers (merge_config envConfig pa)\<rparr>
                    ''{ __typename }'' [] = Inl err
              \<longrightarrow> r = Inl (McpError InternalError (ConnectFailed (error_message err))))
         \<and> (\<forall>res. r = Inr res \<longrightarrow>
              (\<exists>envConfig pa ep.
                 loadEnvironmentConfig (JSON_parse w) (env w) = Some envConfig
                 \<and> ConfigureArgsSchema_parse (is_url w) a = Some pa
                 \<and> truthy (cfg_endpoint (merge_config envConfig pa)) = Some ep
                 \<and> \<not> isl (request w \<lparr>c_endpoint = ep,
                                        c_headers = cfg_headers (merge_config envConfig pa)\<rparr>
                              ''{ __typename }'' [])
                 \<and> s' =
                     \<lparr>client = Some \<lparr>c_endpoint = ep,
                                      c_headers = cfg_headers (merge_config envConfig pa)\<rparr>,
                      endpoint = Some ep,
                      config = Some (merge_config envConfig pa),
                      cachedSchema =
                        (case request w \<lparr>c_endpoint = ep,
                                          c_headers = cfg_headers (merge_config envConfig pa)\<rparr>
                                (introspectionQuery w) [] of
                           Inl err \<Rightarrow> None
                         | Inr resp \<Rightarrow> Some resp),
                      schemaTimestamp =
                        (case request w \<lparr>c_endpoint = ep,
                                          c_headers = cfg_headers (merge_config envConfig pa)\<rparr>
                                (introspectionQuery w) [] of
                           Inl err \<Rightarrow> 0
                         | Inr resp \<Rightarrow> now w),
                      dynamicTools =
                        (case request w \<lparr>c_endpoint = ep,
                                          c_headers = cfg_headers (merge_config envConfig pa)\<rparr>
                                (introspectionQuery w) [] of
                           Inl err \<Rightarrow> []
                         | Inr resp \<Rightarrow>
                             (case as_schema resp of
                                None \<Rightarrow> []
                              | Some sd \<Rightarrow>
                                  createMCPToolsFromSchema
                                    (Some (merge_config envConfig pa)) sd))\<rparr>))"
proof -
  have kept: "s' = s" if "r = Inl e" for e
    using failed_configure_state[of w a s e] assms that by simp
  have type_error: "r = Inl TypeError"
    if "loadEnvironmentConfig (JSON_parse w) (env w) = None"
    using assms that by (simp add: handleConfigureGraphQL_def)
  have no_parse: "r = Inl ZodError"
    if "loadEnvironmentConfig (JSON_parse w) (env w) = Some envConfig"
       "ConfigureArgsSchema_parse (is_url w) a = None"
    for envConfig
    using assms that by (simp add: handleConfigureGraphQL_def)
  have bad_url: "ConfigureArgsSchema_parse (is_url w) a = None"
    if "p_endpoint a = Some ep" "\<not> is_url w ep" for ep
    using that by (simp add: ConfigureArgsSchema_parse_def)
  have no_endpoint: "r = Inl (McpError InvalidParams EndpointRequired)"
    if "loadEnvironmentConfig (JSON_parse w) (env w) = Some envConfig"
       "ConfigureArgsSchema_parse (is_url w) a = Some pa"
       "truthy (cfg_endpoint (merge_config envConfig pa)) = None"
    for envConfig pa
    using assms that by (simp add: handleConfigureGraphQL_def Let_def)
  have no_probe: "r = Inl (McpError InternalError (ConnectFailed (error_message err)))"
    if "loadEnvironmentConfig (JSON_parse w) (env w) = Some envConfig"
       "ConfigureArgsSchema_parse (is_url w) a = Some pa"
       "truthy (cfg_endpoint (merge_config envConfig pa)) = Some ep"
       "request w \<lparr>c_endpoint = ep, c_headers = cfg_headers (merge_config envConfig pa)\<rparr>
          ''{ __typename }'' [] = Inl err"
    for envConfig pa ep err
    using assms that by (simp add: handleConfigureGraphQL_def Let_def)
  have fresh: "\<exists>envConfig pa ep.
                 loadEnvironmentConfig (JSON_parse w) (env w) = Some envConfig
                 \<and> ConfigureArgsSchema_parse (is_url w) a = Some pa
                 \<and> truthy (cfg_endpoint (merge_config envConfig pa)) = Some ep
                 \<and> \<not> isl (request w \<lparr>c_endpoint = ep,
                                        c_headers = cfg_headers (merge_config envConfig pa)\<rparr>
                              ''{ __typename }'' [])
                 \<and> s' =
                     \<lparr>client = Some \<lparr>c_endpoint = ep,
                                      c_headers = cfg_headers (merge_config envConfig pa)\<rparr>,
                      endpoint = Some ep,
                      config = Some (merge_config envConfig pa),
                      cachedSchema =
                        (case request w \<lparr>c_endpoint = ep,
                                          c_headers = cfg_headers (merge_config envConfig pa)\<rparr>
                                (introspectionQuery w) [] of
                           Inl err \<Rightarrow> None
                         | Inr resp \<Rightarrow> Some resp),
                      schemaTimestamp =
                        (case request w \<lparr>c_endpoint = ep,
                                          c_headers = cfg_headers (merge_config envConfig pa)\<rparr>
                                (introspectionQuery w) [] of
                           Inl err \<Rightarrow> 0
                         | Inr resp \<Rightarrow> now w),
                      dynamicTools =
                        (case request w \<lparr>c_endpoint = ep,
                                          c_headers = cfg_headers (merge_config envConfig pa)\<rparr>
                                (introspectionQuery w) [] of
                           Inl err \<Rightarrow> []
                         | Inr resp \<Rightarrow>
                             (case as_schema resp of
                                None \<Rightarrow> []
                              | Some sd \<Rightarrow>
                                  createMCPToolsFromSchema
                                    (Some (merge_config envConfig pa)) sd))\<rparr>"
    if "r = Inr res" for res
  proof -
    from assms that have "handleConfigureGraphQL w a s = (Inr res, s')" by simp
    from successful_configure[OF this] obtain envConfig pa ep x
      where load: "loadEnvironmentConfig (JSON_parse w) (env w) = Some envConfig"
        and parse: "ConfigureArgsSchema_parse (is_url w) a = Some pa"
        and ep: "truthy (cfg_endpoint (merge_config envConfig pa)) = Some ep"
        and probe: "request w \<lparr>c_endpoint = ep,
                                 c_headers = cfg_headers (merge_config envConfig pa)\<rparr>
                       ''{ __typename }'' [] = Inr x"
        and s': "s' = introspect_step w
                      \<lparr>c_endpoint = ep, c_headers = cfg_headers (merge_config envConfig pa)\<rparr>
                      (s\<lparr>client := Some \<lparr>c_endpoint = ep,
                                          c_headers = cfg_headers (merge_config envConfig pa)\<rparr>,
                         endpoint := cfg_endpoint (merge_config envConfig pa),
                         config := Some (merge_config envConfig pa),
                         cachedSchema := None, schemaTimestamp := 0, dynamicTools := []\<rparr>)"
      by blast
    from ep have stored: "cfg_endpoint (merge_config envConfig pa) = Some ep"
      by (rule truthy_Some)
    have answered: "\<not> isl (request w \<lparr>c_endpoint = ep,
                                        c_headers = cfg_headers (merge_config envConfig pa)\<rparr>
                              ''{ __typename }'' [])"
      by (simp add: probe)
    note state = s'[unfolded introspect_step_fresh stored]
    show ?thesis
      by (intro exI[of _ envConfig] exI[of _ pa] exI[of _ ep] conjI load parse ep answered state)
  qed
  have c1: "\<forall>e. r = Inl e \<longrightarrow>
            s' = s \<and> status_object w' s' = status_object w' s \<and> listTools s' = listTools s"
  proof (intro allI impI)
    fix e
    assume "r = Inl e"
    then have "s' = s" by (rule kept)
    then show "s' = s \<and> status_object w' s' = status_object w' s \<and> listTools s' = listTools s"
      by simp
  qed
  have c2: "loadEnvironmentConfig (JSON_parse w) (env w) = None \<longrightarrow> r = Inl TypeError"
    using type_error by (intro impI)
  have c3: "\<forall>envConfig.
              loadEnvironmentConfig (JSON_parse w) (env w) = Some envConfig
              \<and> ConfigureArgsSchema_parse (is_url w) a = None
              \<longrightarrow> r = Inl ZodError"
    using no_parse by (intro allI impI) (elim conjE)
  have c4: "\<forall>ep. p_endpoint a = Some ep \<and> \<not> is_url w ep
              \<longrightarrow> ConfigureArgsSchema_parse (is_url w) a = None"
    using bad_url by (intro allI impI) (elim conjE)
  have c5: "\<forall>envConfig pa.
              loadEnvironmentConfig (JSON_parse w) (env w) = Some envConfig
              \<and> ConfigureArgsSchema_parse (is_url w) a = Some pa
              \<and> truthy (cfg_endpoint (merge_config envConfig pa)) = None
              \<longrightarrow> r = Inl (McpError InvalidParams EndpointRequired)"
    using no_endpoint by (intro allI impI) (elim conjE)
  have c6: "\<forall>envConfig pa ep err.
              loadEnvironmentConfig (JSON_parse w) (env w) = Some envConfig
              \<and> ConfigureArgsSchema_parse (is_url w) a = Some pa
              \<and> truthy (cfg_endpoint (merge_config envConfig pa)) = Some ep
              \<and> request w \<lparr>c_endpoint = ep,
                              c_headers = cfg_headers (merge_config envConfig pa)\<rparr>
                    ''{ __typename }'' [] = Inl err
              \<longrightarrow> r = Inl (McpError InternalError (ConnectFailed (error_message err)))"
    using no_probe by (intro allI impI) (elim conjE)
  show ?thesis
    by (intro conjI c1 c2 c3 c4 c5 c6 allI impI fresh)
qed

theorem failed_configure_keeps_state_witness:
  "snd (handleConfigureGraphQL (world_with no_env countries_net)
          (endpoint_only ''https://down.example/graphql'') countries_state) = countries_state
   \<and> listTools (snd (handleConfigureGraphQL (world_with no_env countries_net)
          (endpoint_only ''https://down.example/graphql'') countries_state))
       = [''get_status'', ''query_countries'', ''query_country'', ''query_continents'',
          ''mutation_addCountry'']"
proof -
  let ?w = "world_with no_env countries_net"
  let ?a = "endpoint_only ''https://down.example/graphql''"
  have failed: "fst (handleConfigureGraphQL ?w ?a countries_state)
                  = Inl (McpError InternalError (ConnectFailed ''getaddrinfo ENOTFOUND''))"
    by (simp add: handleConfigureGraphQL_def world_with_def parse_endpoint_only no_env_config
          merge_config_def empty_arguments_def truthy_def spread_def or_empty_def
          countries_net_def error_message_def Let_def)
  have "handleConfigureGraphQL ?w ?a countries_state
          = (fst (handleConfigureGraphQL ?w ?a countries_state),
             snd (handleConfigureGraphQL ?w ?a countries_state))"
    by simp
  from failed_configure_keeps_state[OF this, of ?w] failed
  have "snd (handleConfigureGraphQL ?w ?a countries_state) = countries_state
        \<and> listTools (snd (handleConfigureGraphQL ?w ?a countries_state)) = listTools countries_state"
    by blast
  then show ?thesis by (simp add: listTools_def countries_state_tools)
qed

text \<open>The names of the dynamic tools of a state all start with \<open>query_\<close> or \<open>mutation_\<close>.\<close>

definition tools_prefixed :: "server_state \<Rightarrow> bool" where
  "tools_prefixed s =
     list_all (\<lambda>t. prefix ''query_'' (name t) \<or> prefix ''mutation_'' (name t)) (dynamicTools s)"

lemma created_prefixed:
  "list_all (\<lambda>t. prefix ''query_'' (name t) \<or> prefix ''mutation_'' (name t))
     (createMCPToolsFromSchema cfg sd)"
  by (auto simp: createMCPToolsFromSchema_def Let_def field_loop_filter list_all_iff
        field_tool_name op_word_def)

lemma initial_prefixed: "tools_prefixed initial_state"
  by (simp add: tools_prefixed_def initial_state_def)

lemma configure_prefixed:
  assumes "tools_prefixed s"
  shows "tools_prefixed (snd (handleConfigureGraphQL w a s))"
proof (cases "fst (handleConfigureGraphQL w a s)")
  case (Inl e)
  then show ?thesis using assms by (simp add: failed_configure_state)
next
  case (Inr res)
  then have "handleConfigureGraphQL w a s = (Inr res, snd (handleConfigureGraphQL w a s))"
    by (metis prod.collapse)
  from successful_configure[OF this] obtain cl c e cfg
    where s': "snd (handleConfigureGraphQL w a s) = introspect_step w cl
                       (s\<lparr>client := c, endpoint := e, config := Some cfg,
                          cachedSchema := None, schemaTimestamp := 0, dynamicTools := []\<rparr>)"
    by blast
  show ?thesis
    unfolding tools_prefixed_def s'
    by (simp add: introspect_step_tools created_prefixed split: sum.splits option.splits)
qed

lemma unprefixed_unknown:
  assumes "tools_prefixed s" and "n \<noteq> ''get_status''"
      and "\<not> prefix ''query_'' n" and "\<not> prefix ''mutation_'' n"
  shows "callTool w n a s = Inl (McpError MethodNotFound (UnknownTool n (listTools s)))
         \<and> n \<notin> set (listTools s)"
proof -
  have no: "\<forall>t \<in> set (dynamicTools s). name t \<noteq> n"
    using assms by (auto simp: tools_prefixed_def list_all_iff)
  then have "find (\<lambda>t. name t = n) (dynamicTools s) = None"
    by (simp add: find_None_iff)
  then have "callTool w n a s = Inl (McpError MethodNotFound (UnknownTool n (listTools s)))"
    using assms(2) by (simp add: callTool_def listTools_def)
  moreover have "n \<notin> set (listTools s)"
    using no assms(2) by (auto simp: listTools_def)
  ultimately show ?thesis by blast
qed

text \<open>
  C2, as the claim states it, fails. The dispatcher knows \<open>get_status\<close> and the dynamic
  tools only: a call of \<open>configure_graphql\<close> or \<open>introspect_schema\<close> (the names the source
  file's header gives), or of \<open>configure\<close> or \<open>introspect\<close>, is answered with the
  unknown-tool error, before and after a configuration, and the tool list has no such
  entry.
\<close>

theorem configure_tool_counterexample:
  "callTool (world_with no_env countries_net) ''configure_graphql''
       (Some [(''endpoint'', JString ''https://countries.trevorblades.com/'')]) initial_state
     = Inl (McpError MethodNotFound (UnknownTool ''configure_graphql'' [''get_status'']))
   \<and> callTool (world_with no_env countries_net) ''configure'' None initial_state
       = Inl (McpError MethodNotFound (UnknownTool ''configure'' [''get_status'']))
   \<and> callTool (world_with no_env countries_net) ''introspect_schema''
       (Some [(''includeDeprecated'', JBool False)]) countries_state
       = Inl (McpError MethodNotFound
                (UnknownTool ''introspect_schema''
                   [''get_status'', ''query_countries'', ''query_country'', ''query_continents'',
                    ''mutation_addCountry'']))
   \<and> callTool (world_with no_env countries_net) ''introspect'' None countries_state
       = Inl (McpError MethodNotFound
                (UnknownTool ''introspect''
                   [''get_status'', ''query_countries'', ''query_country'', ''query_continents'',
                    ''mutation_addCountry'']))
   \<and> listTools initial_state = [''get_status'']"
proof -
  have names: "map name (dynamicTools countries_state)
     = [''query_countries'', ''query_country'', ''query_continents'', ''mutation_addCountry'']"
    by (rule countries_state_tools)
  have none: "find (\<lambda>t. name t = n) (dynamicTools countries_state) = None"
    if "n \<notin> set (map name (dynamicTools countries_state))" for n
    using that by (auto simp: find_None_iff)
  have a: "find (\<lambda>t. name t = ''introspect_schema'') (dynamicTools countries_state) = None"
    by (rule none) (simp add: names)
  have b: "find (\<lambda>t. name t = ''introspect'') (dynamicTools countries_state) = None"
    by (rule none) (simp add: names)
  show ?thesis
    by (simp add: callTool_def a b names) (simp add: initial_state_def listTools_def)
qed

text \<open>
  C2, amended. The tool surface of the list and call handlers is \<open>get_status\<close> and the
  dynamic tools. In every state in which the dynamic tools are named \<open>query_...\<close> or
  \<open>mutation_...\<close> (the initial state is one, and a configure call leads from such a state
  to such a state), every call of \<open>configure\<close>, \<open>introspect\<close>, \<open>configure_graphql\<close> or
  \<open>introspect_schema\<close> through the dispatcher returns the unknown-tool error that lists the
  tools there are, and none of these names is in the tool list.
\<close>

theorem static_tools_unknown:
  assumes "tools_prefixed s"
      and "n \<in> set [''configure'', ''introspect'', ''configure_graphql'', ''introspect_schema'']"
  shows "callTool w n a s = Inl (McpError MethodNotFound (UnknownTool n (listTools s)))
         \<and> n \<notin> set (listTools s)
         \<and> tools_prefixed initial_state
         \<and> tools_prefixed (snd (handleConfigureGraphQL w' a' s))"
proof -
  from assms(2) have "n \<noteq> ''get_status''" "\<not> prefix ''query_'' n" "\<not> prefix ''mutation_'' n"
    by auto
  from unprefixed_unknown[OF assms(1) this] initial_prefixed configure_prefixed[OF assms(1)]
  show ?thesis by blast
qed

theorem static_tools_unknown_witness:
  "tools_prefixed countries_state
   \<and> callTool (world_with no_env countries_net) ''configure_graphql''
        (Some [(''endpoint'', JString ''https://down.example/graphql'')]) countries_state
       = Inl (McpError MethodNotFound
                (UnknownTool ''configure_graphql''
                   [''get_status'', ''query_countries'', ''query_country'', ''query_continents'',
                    ''mutation_addCountry'']))"
proof -
  have p: "tools_prefixed countries_state"
    by (simp add: tools_prefixed_def countries_state_def created_prefixed)
  have n: "''configure_graphql''
             \<in> set [''configure'', ''introspect'', ''configure_graphql'', ''introspect_schema'']"
    by simp
  from static_tools_unknown[OF p n]
  have "callTool (world_with no_env countries_net) ''configure_graphql''
          (Some [(''endpoint'', JString ''https://down.example/graphql'')]) countries_state
        = Inl (McpError MethodNotFound (UnknownTool ''configure_graphql'' (listTools countries_state)))"
    by blast
  with p show ?thesis by (simp add: listTools_def countries_state_tools)
qed

subsection \<open>Environment defaults\<close>

text \<open>
  What the merge does, for all inputs: the endpoint comes from the arguments when they
  give one and from the environment otherwise, and the headers are merged key by key with
  the keys of the arguments winning. The timeout, the two limits and the disabled list are
  those of the parsed arguments, that is the explicit value or the default of the argument
  schema; the environment configuration is not looked at.
\<close>

lemma map_of_spread:
  assumes "distinct (map fst b)"
  shows "map_of (spread a b) = map_of a ++ map_of b"
proof
  fix k
  show "map_of (spread a b) k = (map_of a ++ map_of b) k"
  proof (cases "k \<in> fst ` set b")
    case True
    then obtain v where v: "(k, v) \<in> set b" by auto
    with assms have "map_of b k = Some v" by simp
    moreover from assms v have "map_of (spread a b) k = Some v"
      unfolding spread_def by (rule map_of_entries)
    ultimately show ?thesis by (simp add: map_add_def)
  next
    case False
    then have "map_of b k = None" by (simp add: map_of_eq_None_iff)
    moreover from False have "map_of (spread a b) k = map_of a k"
      unfolding spread_def by (rule map_of_entries_other)
    ultimately show ?thesis by (simp add: map_add_def)
  qed
qed

lemma merged_fields:
  assumes "ConfigureArgsSchema_parse u a = Some pa"
  shows "cfg_endpoint (merge_config e pa)
           = (case p_endpoint a of Some x \<Rightarrow> Some x | None \<Rightarrow> p_endpoint e)
         \<and> timeout (merge_config e pa) = or_default 30000 (p_timeout a)
         \<and> maxDepth (merge_config e pa) = or_default 10 (p_maxDepth a)
         \<and> maxComplexity (merge_config e pa) = or_default 100 (p_maxComplexity a)
         \<and> disabledResolvers (merge_config e pa) = or_default [] (p_disabledResolvers a)"
  using assms
  by (auto simp: ConfigureArgsSchema_parse_def merge_config_def split: if_splits)

lemma merged_headers:
  assumes "ConfigureArgsSchema_parse u a = Some pa"
      and "distinct (map fst (or_empty (p_headers e)))"
      and "distinct (map fst (or_empty (p_headers a)))"
  shows "map_of (cfg_headers (merge_config e pa))
           = map_of (or_empty (p_headers e)) ++ map_of (or_empty (p_headers a))"
proof -
  from assms(1) have "a_headers pa = p_headers a"
    by (auto simp: ConfigureArgsSchema_parse_def split: if_splits)
  then show ?thesis
    using assms(2,3) by (simp add: merge_config_def map_of_spread)
qed

text \<open>An environment that sets the endpoint, the timeout, both limits and a disabled
  resolver.\<close>

definition limits_env :: process_env where
  "limits_env =
     no_env\<lparr>GRAPHQL_ENDPOINT := Some ''https://countries.trevorblades.com/'',
            GRAPHQL_TIMEOUT := Some ''5000'',
            GRAPHQL_MAX_DEPTH := Some ''5'',
            GRAPHQL_MAX_COMPLEXITY := Some ''50'',
            GRAPHQL_DISABLED_RESOLVERS := Some ''country''\<rparr>"

lemma limits_env_config:
  "loadEnvironmentConfig (\<lambda>_. None) limits_env =
     Some \<lparr>p_endpoint = Some ''https://countries.trevorblades.com/'', p_headers = None,
           p_timeout = Some 5000, p_maxDepth = Some 5, p_maxComplexity = Some 50,
           p_disabledResolvers = Some [''country'']\<rparr>"
proof -
  have n: "parseInt ''5000'' = Some 5000" "parseInt ''5'' = Some 5" "parseInt ''50'' = Some 50"
    by code_simp+
  have d: "split_on (CHR '','') ''country'' = [''country'']" "trim ''country'' = ''country''"
    by code_simp+
  show ?thesis
    by (simp add: loadEnvironmentConfig_def limits_env_def no_env_def truthy_def
          env_number_def spread_view_def n d)
qed

text \<open>
  C3 fails on the code for the timeout, the maximum depth, the maximum complexity and the
  disabled resolvers. With the environment above and the start-up call
  \<^verbatim>\<open>handleConfigureGraphQL({})\<close>, the environment configuration holds 5000, 5, 50 and
  \<open>country\<close>, and the stored configuration holds the schema defaults 30000, 10, 100 and no
  disabled resolver; the tool \<open>query_country\<close> is created.
\<close>

theorem environment_limits_overridden:
  "loadEnvironmentConfig (JSON_parse (world_with limits_env countries_net))
       (env (world_with limits_env countries_net))
     = Some \<lparr>p_endpoint = Some ''https://countries.trevorblades.com/'', p_headers = None,
             p_timeout = Some 5000, p_maxDepth = Some 5, p_maxComplexity = Some 50,
             p_disabledResolvers = Some [''country'']\<rparr>
   \<and> map_option config (main_configure (world_with limits_env countries_net) initial_state)
       = Some (Some \<lparr>cfg_endpoint = Some ''https://countries.trevorblades.com/'',
                     cfg_headers = [], timeout = 30000, maxDepth = 10, maxComplexity = 100,
                     disabledResolvers = []\<rparr>)
   \<and> map_option (map name \<circ> dynamicTools)
         (main_configure (world_with limits_env countries_net) initial_state)
       = Some [''query_countries'', ''query_country'', ''query_continents'',
               ''mutation_addCountry'']"
proof -
  let ?w = "world_with limits_env countries_net"
  have e: "loadEnvironmentConfig (JSON_parse ?w) (env ?w) =
     Some \<lparr>p_endpoint = Some ''https://countries.trevorblades.com/'', p_headers = None,
           p_timeout = Some 5000, p_maxDepth = Some 5, p_maxComplexity = Some 50,
           p_disabledResolvers = Some [''country'']\<rparr>"
    by (simp add: world_with_def limits_env_config)
  have p: "ConfigureArgsSchema_parse (is_url ?w) empty_arguments =
             Some \<lparr>a_endpoint = None, a_headers = None, a_timeout = 30000, a_maxDepth = 10,
                   a_maxComplexity = 100, a_disabledResolvers = []\<rparr>"
    by (simp add: ConfigureArgsSchema_parse_def empty_arguments_def in_range_def or_default_def)
  have s: "main_configure ?w initial_state = Some countries_state"
    unfolding main_configure_def handleConfigureGraphQL_def e p
    by (simp add: world_with_def merge_config_def truthy_def spread_def or_empty_def
          countries_net_def introspect_step_def initial_state_def countries_state_def
          countries_client_def limits_def Let_def)
  from e s countries_state_tools show ?thesis
    by (simp add: countries_state_def limits_def)
qed

end
